theory Spec2Isabelle
  imports Main "HOL-Library.AList" "HOL-Library.Multiset" "HOL-Library.Word"
begin

unbundle bit_operations_syntax

section \<open>Python values used by tools/build\_pack.py\<close>

text \<open>
  The builders work on the values that \<^verbatim>\<open>json.loads\<close> returns. A JSON object is kept as
  the list of its items (a Python dict keeps insertion order); floats are kept abstract
  (type \<open>'f\<close>). Python's \<^verbatim>\<open>None\<close> is \<open>JNull\<close>.
\<close>

datatype pyerr = TypeError | ValueError | AttributeError | OverflowError | URLError | CvError

datatype 'f json =
    JNull
  | JBool bool
  | JInt int
  | JFloat 'f
  | JStr string
  | JList "'f json list"
  | JObj "(string \<times> 'f json) list"

text \<open>
  The built-ins whose result the theory does not compute are parameters: what
  \<^verbatim>\<open>bool\<close> and \<^verbatim>\<open>int\<close> do on a float, what \<^verbatim>\<open>int\<close> does on a string, and the
  text that \<^verbatim>\<open>str\<close> gives for a float, a list or a dict.
\<close>

record 'f pyenv =
  float_bool :: "'f \<Rightarrow> bool"
  float_int :: "'f \<Rightarrow> pyerr + int"
  str_int :: "string \<Rightarrow> pyerr + int"
  repr_other :: "'f json \<Rightarrow> string"

definition digit_char :: "nat \<Rightarrow> char" where
  "digit_char d = ''0123456789abcdef'' ! d"

fun dec_digits :: "nat \<Rightarrow> string" where
  "dec_digits n = (if n < 10 then [digit_char n] else dec_digits (n div 10) @ [digit_char (n mod 10)])"

fun hex_digits :: "nat \<Rightarrow> string" where
  "hex_digits n = (if n < 16 then [digit_char n] else hex_digits (n div 16) @ [digit_char (n mod 16)])"

declare dec_digits.simps [simp del]
declare hex_digits.simps [simp del]

text \<open>\<^verbatim>\<open>str(n)\<close> for an int.\<close>

definition int_str :: "int \<Rightarrow> string" where
  "int_str n = (if n < 0 then CHR ''-'' # dec_digits (nat (- n)) else dec_digits (nat n))"

text \<open>\<^verbatim>\<open>str(v)\<close>, also what an f-string field \<^verbatim>\<open>{v}\<close> renders.\<close>

definition py_str :: "'f pyenv \<Rightarrow> 'f json \<Rightarrow> string" where
  "py_str E v =
     (case v of
        JNull \<Rightarrow> ''None''
      | JBool b \<Rightarrow> (if b then ''True'' else ''False'')
      | JInt n \<Rightarrow> int_str n
      | JStr s \<Rightarrow> s
      | _ \<Rightarrow> repr_other E v)"

text \<open>Truth value of \<^verbatim>\<open>v\<close>, as \<^verbatim>\<open>not v\<close> and \<^verbatim>\<open>v or d\<close> test it.\<close>

definition py_bool :: "'f pyenv \<Rightarrow> 'f json \<Rightarrow> bool" where
  "py_bool E v =
     (case v of
        JNull \<Rightarrow> False
      | JBool b \<Rightarrow> b
      | JInt n \<Rightarrow> n \<noteq> 0
      | JFloat f \<Rightarrow> float_bool E f
      | JStr s \<Rightarrow> s \<noteq> []
      | JList xs \<Rightarrow> xs \<noteq> []
      | JObj kvs \<Rightarrow> kvs \<noteq> [])"

text \<open>\<^verbatim>\<open>int(v)\<close>: raises TypeError on None, a list or a dict.\<close>

definition py_int :: "'f pyenv \<Rightarrow> 'f json \<Rightarrow> pyerr + int" where
  "py_int E v =
     (case v of
        JNull \<Rightarrow> Inl TypeError
      | JBool b \<Rightarrow> Inr (if b then 1 else 0)
      | JInt n \<Rightarrow> Inr n
      | JFloat f \<Rightarrow> float_int E f
      | JStr s \<Rightarrow> str_int E s
      | JList xs \<Rightarrow> Inl TypeError
      | JObj kvs \<Rightarrow> Inl TypeError)"

text \<open>\<^verbatim>\<open>d.get(k, default)\<close>; \<^verbatim>\<open>d.get(k)\<close> is \<open>dict_get d k JNull\<close>.\<close>

definition dict_get :: "(string \<times> 'a) list \<Rightarrow> string \<Rightarrow> 'a \<Rightarrow> 'a" where
  "dict_get d k dflt = (case map_of d k of None \<Rightarrow> dflt | Some v \<Rightarrow> v)"

definition startswith :: "string \<Rightarrow> string \<Rightarrow> bool" where
  "startswith s p = (take (length p) s = p)"

section \<open>Record normalizer\<close>

definition rarity_from_quality :: "string \<Rightarrow> int option" where
  "rarity_from_quality q =
     map_of [(''QUALITY_ORANGE'', 5), (''QUALITY_PURPLE'', 4), (''QUALITY_BLUE'', 3),
             (''QUALITY_GREEN'', 2), (''QUALITY_WHITE'', 1)] q"

definition weapon_type_short :: "string \<Rightarrow> string" where
  "weapon_type_short wt =
     (case map_of [(''WEAPON_SWORD_ONE_HAND'', ''Sword''), (''WEAPON_CLAYMORE'', ''Claymore''),
                   (''WEAPON_POLE'', ''Polearm''), (''WEAPON_CATALYST'', ''Catalyst''),
                   (''WEAPON_BOW'', ''Bow'')] wt of
        Some s \<Rightarrow> s
      | None \<Rightarrow> (if wt \<noteq> [] then wt else ''Unknown''))"

section \<open>Selector\<close>

type_synonym 'f dict = "(string \<times> 'f json) list"
type_synonym 'f table = "(string \<times> 'f dict) list"

text \<open>
  The sort key \<^verbatim>\<open>int(x.get("id", 0))\<close>. \<^verbatim>\<open>x.get\<close> raises AttributeError when the
  candidate is not a dict. The key is returned with the candidate's items.
\<close>

definition id_key :: "'f pyenv \<Rightarrow> 'f json \<Rightarrow> pyerr + (int \<times> 'f dict)" where
  "id_key E x =
     (case x of
        JObj d \<Rightarrow> (case py_int E (dict_get d ''id'' (JInt 0)) of
                     Inl e \<Rightarrow> Inl e
                   | Inr k \<Rightarrow> Inr (k, d))
      | _ \<Rightarrow> Inl AttributeError)"

text \<open>\<^verbatim>\<open>sorted\<close> computes every key first, in list order; the first failure is raised.\<close>

fun sort_keys :: "'f pyenv \<Rightarrow> 'f json list \<Rightarrow> pyerr + (int \<times> 'f dict) list" where
  "sort_keys E [] = Inr []"
| "sort_keys E (x # xs) =
     (case id_key E x of
        Inl e \<Rightarrow> Inl e
      | Inr kd \<Rightarrow> (case sort_keys E xs of Inl e \<Rightarrow> Inl e | Inr kds \<Rightarrow> Inr (kd # kds)))"

text \<open>\<^verbatim>\<open>sorted(xs, key=lambda x: int(x.get("id", 0)))\<close>: a stable sort on the keys.\<close>

definition sorted_by_id :: "'f pyenv \<Rightarrow> 'f json list \<Rightarrow> pyerr + 'f dict list" where
  "sorted_by_id E xs =
     (case sort_keys E xs of
        Inl e \<Rightarrow> Inl e
      | Inr kds \<Rightarrow> Inr (map snd (sort_key fst kds)))"

text \<open>
  The loop of both builders: \<^verbatim>\<open>for a in xs: if len(out) >= N: break; ...\<close>, where
  \<open>step out a\<close> is the rest of the body (it returns \<open>out\<close> unchanged on \<^verbatim>\<open>continue\<close>).
\<close>

fun select_loop :: "int \<Rightarrow> ('t list \<Rightarrow> 'c \<Rightarrow> 't list) \<Rightarrow> 't list \<Rightarrow> 'c list \<Rightarrow> 't list" where
  "select_loop N step out [] = out"
| "select_loop N step out (a # as) =
     (if int (length out) \<ge> N then out else select_loop N step (step out a) as)"

subsection \<open>Characters\<close>

definition char_accept :: "'f pyenv \<Rightarrow> 'f dict \<Rightarrow> bool" where
  "char_accept E a =
     (py_bool E (dict_get a ''id'' JNull) \<and> py_bool E (dict_get a ''iconName'' JNull)
      \<and> startswith (py_str E (dict_get a ''iconName'' JNull)) ''UI_AvatarIcon_''
      \<and> rarity_from_quality (py_str E (dict_get a ''qualityType'' JNull)) \<noteq> None)"

text \<open>The key \<^verbatim>\<open>str(_id)\<close> under which either builder stores an accepted candidate.\<close>

definition table_key :: "'f pyenv \<Rightarrow> 'f dict \<Rightarrow> string" where
  "table_key E a = py_str E (dict_get a ''id'' JNull)"

text \<open>The dict literal that \<^verbatim>\<open>build_characters\<close> stores (lines 120-126).\<close>

definition char_record :: "'f pyenv \<Rightarrow> 'f json \<Rightarrow> int \<Rightarrow> 'f json \<Rightarrow> 'f json \<Rightarrow> 'f dict" where
  "char_record E name rarity wt icon =
     [(''name'', name),
      (''rarity'', JInt rarity),
      (''element'', JNull),
      (''weapon_type'', JStr (weapon_type_short (py_str E wt))),
      (''icon_name'', JStr (py_str E icon))]"

definition char_step :: "'f pyenv \<Rightarrow> 'f dict \<Rightarrow> 'f table \<Rightarrow> 'f dict \<Rightarrow> 'f table" where
  "char_step E textmap out a =
     (let id_v = dict_get a ''id'' JNull;
          icon = dict_get a ''iconName'' JNull;
          q = dict_get a ''qualityType'' JNull;
          wt = dict_get a ''weaponType'' JNull;
          name_hash = py_str E (dict_get a ''nameTextMapHash'' (JStr ''''))
      in if \<not> py_bool E id_v \<or> \<not> py_bool E icon then out
         else if \<not> startswith (py_str E icon) ''UI_AvatarIcon_'' then out
         else (case rarity_from_quality (py_str E q) of
                 None \<Rightarrow> out
               | Some rarity \<Rightarrow>
                   AList.update (py_str E id_v)
                     (char_record E (dict_get textmap name_hash (JStr (CHR ''#'' # py_str E id_v)))
                        rarity wt icon)
                     out))"

definition build_characters ::
  "'f pyenv \<Rightarrow> int \<Rightarrow> 'f json list \<Rightarrow> 'f dict \<Rightarrow> pyerr + 'f table" where
  "build_characters E N_CHARACTERS avatars textmap =
     (case sorted_by_id E avatars of
        Inl e \<Rightarrow> Inl e
      | Inr avatars_sorted \<Rightarrow> Inr (select_loop N_CHARACTERS (char_step E textmap) [] avatars_sorted))"

subsection \<open>Weapons\<close>

definition weap_accept :: "'f pyenv \<Rightarrow> 'f dict \<Rightarrow> bool" where
  "weap_accept E w =
     (py_bool E (dict_get w ''id'' JNull) \<and> py_bool E (dict_get w ''icon'' JNull)
      \<and> startswith (py_str E (dict_get w ''icon'' JNull)) ''UI_EquipIcon_''
      \<and> \<not> isl (py_int E (dict_get w ''rankLevel'' JNull)))"

text \<open>The dict literal that \<^verbatim>\<open>build_weapons\<close> stores (lines 158-163).\<close>

definition weap_record :: "'f pyenv \<Rightarrow> 'f json \<Rightarrow> int \<Rightarrow> 'f json \<Rightarrow> 'f json \<Rightarrow> 'f dict" where
  "weap_record E name rarity wt icon =
     [(''name'', name),
      (''rarity'', JInt rarity),
      (''type'', JStr (weapon_type_short (py_str E wt))),
      (''icon_name'', JStr (py_str E icon))]"

definition weap_step :: "'f pyenv \<Rightarrow> 'f dict \<Rightarrow> 'f table \<Rightarrow> 'f dict \<Rightarrow> 'f table" where
  "weap_step E textmap out w =
     (let id_v = dict_get w ''id'' JNull;
          icon = dict_get w ''icon'' JNull;
          wt = dict_get w ''weaponType'' JNull;
          rank_level = dict_get w ''rankLevel'' JNull;
          name_hash = py_str E (dict_get w ''nameTextMapHash'' (JStr ''''))
      in if \<not> py_bool E id_v \<or> \<not> py_bool E icon then out
         else if \<not> startswith (py_str E icon) ''UI_EquipIcon_'' then out
         else (case py_int E rank_level of
                 Inl e \<Rightarrow> out
               | Inr rarity \<Rightarrow>
                   AList.update (py_str E id_v)
                     (weap_record E (dict_get textmap name_hash (JStr (CHR ''#'' # py_str E id_v)))
                        rarity wt icon)
                     out))"

definition build_weapons ::
  "'f pyenv \<Rightarrow> int \<Rightarrow> 'f json list \<Rightarrow> 'f dict \<Rightarrow> pyerr + 'f table" where
  "build_weapons E N_WEAPONS weapons textmap =
     (case sorted_by_id E weapons of
        Inl e \<Rightarrow> Inl e
      | Inr weapons_sorted \<Rightarrow> Inr (select_loop N_WEAPONS (weap_step E textmap) [] weapons_sorted))"

text \<open>
  The record that each builder stores for an accepted candidate, as a function of the
  candidate (used to state the properties of the loop).
\<close>

definition char_value :: "'f pyenv \<Rightarrow> 'f dict \<Rightarrow> 'f dict \<Rightarrow> 'f dict" where
  "char_value E textmap a =
     char_record E
       (dict_get textmap (py_str E (dict_get a ''nameTextMapHash'' (JStr '''')))
          (JStr (CHR ''#'' # py_str E (dict_get a ''id'' JNull))))
       (the (rarity_from_quality (py_str E (dict_get a ''qualityType'' JNull))))
       (dict_get a ''weaponType'' JNull) (dict_get a ''iconName'' JNull)"

definition weap_value :: "'f pyenv \<Rightarrow> 'f dict \<Rightarrow> 'f dict \<Rightarrow> 'f dict" where
  "weap_value E textmap w =
     weap_record E
       (dict_get textmap (py_str E (dict_get w ''nameTextMapHash'' (JStr '''')))
          (JStr (CHR ''#'' # py_str E (dict_get w ''id'' JNull))))
       (projr (py_int E (dict_get w ''rankLevel'' JNull)))
       (dict_get w ''weaponType'' JNull) (dict_get w ''icon'' JNull)"

section \<open>Perceptual hasher\<close>

text \<open>
  The network and OpenCV calls are parameters, each returning its result or the exception
  it raises: \<^verbatim>\<open>http_get_bytes\<close>, \<^verbatim>\<open>cv2.imdecode\<close> (None when the bytes do not decode),
  \<^verbatim>\<open>to_bgr\<close> (float32 compositing), \<^verbatim>\<open>cv2.cvtColor(.., COLOR_BGR2GRAY)\<close> and
  \<^verbatim>\<open>cv2.resize(.., (w, h), INTER_AREA)\<close>. A single-channel image is the list of its rows.
\<close>

record ('b, 'i, 'p) cvenv =
  http_get_bytes :: "string \<Rightarrow> pyerr + 'b"
  imdecode :: "'b \<Rightarrow> pyerr + 'i option"
  to_bgr :: "'i \<Rightarrow> pyerr + 'i"
  cvtColor_gray :: "'i \<Rightarrow> pyerr + 'p list list"
  resize_area :: "'p list list \<Rightarrow> int \<times> int \<Rightarrow> pyerr + 'p list list"

text \<open>\<^verbatim>\<open>resized[:, 1:] > resized[:, :-1]\<close>, row by row.\<close>

definition dhash_diff :: "('p::linorder) list list \<Rightarrow> bool list list" where
  "dhash_diff resized = map (\<lambda>row. map (\<lambda>(r, l). r > l) (zip (tl row) (butlast row))) resized"

text \<open>\<^verbatim>\<open>for b in bits: val = (val << 1) | int(bool(b))\<close>, from \<^verbatim>\<open>val = 0\<close>.\<close>

definition pack_bits :: "bool list \<Rightarrow> int" where
  "pack_bits bits = foldl (\<lambda>val b. push_bit 1 val OR of_bool b) 0 bits"

text \<open>\<^verbatim>\<open>f"{val:0{width}x}"\<close>: lowercase hexadecimal, zero-padded after the sign.\<close>

definition hex_format :: "nat \<Rightarrow> int \<Rightarrow> string" where
  "hex_format width val =
     (if val < 0
      then (let s = hex_digits (nat (- val)) in CHR ''-'' # replicate (width - 1 - length s) CHR ''0'' @ s)
      else (let s = hex_digits (nat val) in replicate (width - length s) CHR ''0'' @ s))"

definition dhash_hex :: "('b, 'i, 'p::linorder) cvenv \<Rightarrow> 'i \<Rightarrow> int \<Rightarrow> pyerr + string" where
  "dhash_hex C img_bgr hash_size =
     (case cvtColor_gray C img_bgr of
        Inl e \<Rightarrow> Inl e
      | Inr gray \<Rightarrow>
          (case resize_area C gray (hash_size + 1, hash_size) of
             Inl e \<Rightarrow> Inl e
           | Inr resized \<Rightarrow>
               (let diff = dhash_diff resized;
                    bits = concat diff;
                    val = pack_bits bits;
                    width = nat ((hash_size * hash_size + 3) div 4)
                in Inr (hex_format width val))))"

section \<open>Hash index builder\<close>

definition ENKA_UI :: string where
  "ENKA_UI = ''https://enka.network/ui''"

text \<open>The body of the \<^verbatim>\<open>try\<close>: \<open>Inr None\<close> when \<^verbatim>\<open>img is None\<close>, \<open>Inl e\<close> when a call raises.\<close>

definition icon_hash :: "('b, 'i, 'p::linorder) cvenv \<Rightarrow> string \<Rightarrow> pyerr + string option" where
  "icon_hash C url =
     (case http_get_bytes C url of
        Inl e \<Rightarrow> Inl e
      | Inr png \<Rightarrow>
          (case imdecode C png of
             Inl e \<Rightarrow> Inl e
           | Inr None \<Rightarrow> Inr None
           | Inr (Some img) \<Rightarrow>
               (case to_bgr C img of
                  Inl e \<Rightarrow> Inl e
                | Inr img' \<Rightarrow>
                    (case dhash_hex C img' 8 of
                       Inl e \<Rightarrow> Inl e
                     | Inr h \<Rightarrow> Inr (Some h)))))"

definition icon_url :: "'f pyenv \<Rightarrow> 'f json \<Rightarrow> string" where
  "icon_url E icon_name = ENKA_UI @ ''/'' @ py_str E icon_name @ ''.png''"

text \<open>
  One iteration of \<^verbatim>\<open>for _id, meta in items.items()\<close>. The keys of a table are strings,
  so \<^verbatim>\<open>str(_id)\<close> is the key itself. \<^verbatim>\<open>except Exception: continue\<close> turns every
  exception of the \<^verbatim>\<open>try\<close> body into an unchanged index.
\<close>

definition hash_step ::
  "'f pyenv \<Rightarrow> ('b, 'i, 'p::linorder) cvenv \<Rightarrow> (string \<times> string) list \<Rightarrow> string \<times> 'f dict
     \<Rightarrow> pyerr + (string \<times> string) list" where
  "hash_step E C idx item =
     (let id_v = fst item; meta = snd item;
          icon_name = dict_get meta ''icon_name'' JNull
      in if \<not> py_bool E icon_name then Inr idx
         else (case icon_hash C (icon_url E icon_name) of
                 Inl e \<Rightarrow> Inr idx
               | Inr None \<Rightarrow> Inr idx
               | Inr (Some h) \<Rightarrow> Inr (AList.update id_v h idx)))"

fun hash_loop ::
  "'f pyenv \<Rightarrow> ('b, 'i, 'p::linorder) cvenv \<Rightarrow> (string \<times> string) list \<Rightarrow> 'f table
     \<Rightarrow> pyerr + (string \<times> string) list" where
  "hash_loop E C idx [] = Inr idx"
| "hash_loop E C idx (item # items) =
     (case hash_step E C idx item of
        Inl e \<Rightarrow> Inl e
      | Inr idx' \<Rightarrow> hash_loop E C idx' items)"

definition build_hash_index ::
  "'f pyenv \<Rightarrow> ('b, 'i, 'p::linorder) cvenv \<Rightarrow> 'f table \<Rightarrow> pyerr + (string \<times> string) list" where
  "build_hash_index E C items = hash_loop E C [] items"

section \<open>A concrete environment for evaluation\<close>

text \<open>
  The environment \<open>env0\<close> of the examples. A string is read as the list of its code
  points, all below 256. \<^verbatim>\<open>int(s)\<close> skips whitespace at both ends (for \<^verbatim>\<open>int\<close>: tab,
  line feed, vertical tab, form feed, carriage return, space, and the spaces U+0085 and
  U+00A0), takes an optional sign, then decimal digits, where single underscores may stand
  between digits; more than 4300 digits, or anything else, is a ValueError.
\<close>

definition is_int_space :: "char \<Rightarrow> bool" where
  "is_int_space c = (of_char c \<in> {9, 10, 11, 12, 13, 32, 133, 160 :: nat})"

definition is_digit :: "char \<Rightarrow> bool" where
  "is_digit c = ((48::nat) \<le> of_char c \<and> of_char c \<le> (57::nat))"

text \<open>The flag says that the last character read was a digit.\<close>

fun digits_value :: "bool \<Rightarrow> int \<Rightarrow> string \<Rightarrow> int option" where
  "digits_value prev acc [] = (if prev then Some acc else None)"
| "digits_value prev acc (c # cs) =
     (if is_digit c then digits_value True (10 * acc + (of_char c - 48)) cs
      else if c = CHR ''_'' \<and> prev then digits_value False acc cs
      else None)"

definition int_of_str :: "string \<Rightarrow> pyerr + int" where
  "int_of_str s =
     (let t = rev (dropWhile is_int_space (rev (dropWhile is_int_space s)));
          neg = (t \<noteq> [] \<and> hd t = CHR ''-'');
          body = (if t \<noteq> [] \<and> (hd t = CHR ''-'' \<or> hd t = CHR ''+'') then tl t else t)
      in if length (filter is_digit body) > 4300 then Inl ValueError
         else (case digits_value False 0 body of
                 None \<Rightarrow> Inl ValueError
               | Some n \<Rightarrow> Inr (if neg then - n else n)))"

text \<open>
  \<^verbatim>\<open>repr\<close> of a string: single quotes, or double quotes when the string has a single quote
  and no double quote; backslash, the delimiter, tab, line feed and carriage return are
  escaped, the other non-printable code points are written \<^verbatim>\<open>\xNN\<close>.
\<close>

definition repr_char :: "char \<Rightarrow> char \<Rightarrow> string" where
  "repr_char q c =
     (let n = (of_char c :: nat)
      in if c = CHR 0x5C then [CHR 0x5C, CHR 0x5C]
         else if c = q then [CHR 0x5C, q]
         else if n = 9 then [CHR 0x5C, CHR ''t'']
         else if n = 10 then [CHR 0x5C, CHR ''n'']
         else if n = 13 then [CHR 0x5C, CHR ''r'']
         else if n < 32 \<or> (127 \<le> n \<and> n \<le> 160) \<or> n = 173
           then [CHR 0x5C, CHR ''x'', digit_char (n div 16), digit_char (n mod 16)]
         else [c])"

definition repr_str :: "string \<Rightarrow> string" where
  "repr_str s =
     (let q = (if CHR 0x27 \<in> set s \<and> CHR 0x22 \<notin> set s then CHR 0x22 else CHR 0x27)
      in q # concat (map (repr_char q) s) @ [q])"

fun join_comma :: "string list \<Rightarrow> string" where
  "join_comma [] = []"
| "join_comma [x] = x"
| "join_comma (x # y # ys) = x @ '', '' @ join_comma (y # ys)"

text \<open>
  \<^verbatim>\<open>repr\<close> of a JSON value. The one float of this environment is positive infinity
  (\<^verbatim>\<open>Infinity\<close> in the JSON text): it is true, \<^verbatim>\<open>int\<close> raises OverflowError on it, and
  its text is \<^verbatim>\<open>inf\<close>.
\<close>

primrec repr_json :: "unit json \<Rightarrow> string" where
  "repr_json JNull = ''None''"
| "repr_json (JBool b) = (if b then ''True'' else ''False'')"
| "repr_json (JInt n) = int_str n"
| "repr_json (JFloat f) = ''inf''"
| "repr_json (JStr s) = repr_str s"
| "repr_json (JList xs) = ''['' @ join_comma (map repr_json xs) @ '']''"
| "repr_json (JObj kvs) =
     ''{'' @ join_comma (map (\<lambda>kv. repr_str (fst kv) @ '': '' @ snd kv)
                          (map (map_prod id repr_json) kvs)) @ ''}''"

definition env0 :: "unit pyenv" where
  "env0 = \<lparr> float_bool = (\<lambda>_. True), float_int = (\<lambda>_. Inl OverflowError),
            str_int = int_of_str, repr_other = repr_json \<rparr>"

text \<open>Example inputs.\<close>

definition ex_textmap :: "unit dict" where
  "ex_textmap = [(''123'', JStr ''Kamisato Ayaka'')]"

definition ex_avatar :: "unit dict" where
  "ex_avatar = [(''id'', JInt 10000002), (''iconName'', JStr ''UI_AvatarIcon_Ayaka''),
                (''qualityType'', JStr ''QUALITY_PURPLE''),
                (''weaponType'', JStr ''WEAPON_SWORD_ONE_HAND''),
                (''nameTextMapHash'', JStr ''123'')]"

definition ex_weapon :: "unit dict" where
  "ex_weapon = [(''id'', JInt 11101), (''icon'', JStr ''UI_EquipIcon_Sword_Blunt''),
                (''weaponType'', JStr ''WEAPON_SWORD_ONE_HAND''),
                (''rankLevel'', JInt 9), (''nameTextMapHash'', JInt 456)]"

definition ex_avatar_no_wt :: "unit dict" where
  "ex_avatar_no_wt = [(''id'', JInt 10000002), (''iconName'', JStr ''UI_AvatarIcon_Ayaka''),
                (''qualityType'', JStr ''QUALITY_PURPLE''),
                (''nameTextMapHash'', JStr ''123'')]"

definition ex_weapon_null_wt :: "unit dict" where
  "ex_weapon_null_wt = [(''id'', JInt 11101), (''icon'', JStr ''UI_EquipIcon_Sword_Blunt''),
                (''weaponType'', JNull),
                (''rankLevel'', JInt 3), (''nameTextMapHash'', JInt 456)]"

definition ex_dup_a :: "unit dict" where
  "ex_dup_a = [(''id'', JInt 7), (''iconName'', JStr ''UI_AvatarIcon_A''),
               (''qualityType'', JStr ''QUALITY_BLUE'')]"

definition ex_dup_b :: "unit dict" where
  "ex_dup_b = [(''id'', JInt 7), (''iconName'', JStr ''UI_AvatarIcon_B''),
               (''qualityType'', JStr ''QUALITY_ORANGE'')]"

definition ex_ids :: "unit json list" where
  "ex_ids = [JObj [(''id'', JStr ''12'')], JObj [], JObj [(''id'', JInt 5)]]"

definition ex_bad_id :: "unit json list" where
  "ex_bad_id = [JObj [(''id'', JInt 5)], JObj [(''id'', JStr ''abc'')]]"

text \<open>
  Example images and stand-ins for the network and OpenCV calls: \<open>cv0\<close> serves one icon,
  one undecodable file and fails on every other URL, and its resize accepts only an image
  that already has the requested size.
\<close>

definition ex_img :: "nat list list" where
  "ex_img = [[1, 2, 3, 4, 5, 6, 7, 8, 9], [1, 2, 3, 4, 5, 6, 7, 8, 9],
              [1, 2, 3, 4, 5, 6, 7, 8, 9], [1, 2, 3, 4, 5, 6, 7, 8, 9],
              [9, 8, 7, 6, 5, 4, 3, 2, 1], [9, 8, 7, 6, 5, 4, 3, 2, 1],
              [9, 8, 7, 6, 5, 4, 3, 2, 1], [9, 8, 7, 6, 5, 4, 3, 2, 1]]"

definition ex_img2 :: "nat list list" where
  "ex_img2 = [[1, 2, 3], [3, 2, 1]]"

definition cv0 :: "(string, nat list list, nat) cvenv" where
  "cv0 = \<lparr> http_get_bytes = (\<lambda>url.
             if url = ''https://enka.network/ui/UI_AvatarIcon_Ayaka.png'' then Inr ''ayaka''
             else if url = ''https://enka.network/ui/UI_EquipIcon_Sword_Blunt.png'' then Inr ''corrupt''
             else Inl URLError),
           imdecode = (\<lambda>png. if png = ''ayaka'' then Inr (Some ex_img) else Inr None),
           to_bgr = Inr,
           cvtColor_gray = Inr,
           resize_area = (\<lambda>g (w, h).
             if int (length g) = h \<and> list_all (\<lambda>row. int (length row) = w) g then Inr g
             else Inl CvError) \<rparr>"

text \<open>
  What one iteration of the index loop adds for a record: the hash, or nothing when the icon
  name is empty, a call raises or the image does not decode.
\<close>

definition index_entry :: "'f pyenv \<Rightarrow> ('b, 'i, 'p::linorder) cvenv \<Rightarrow> 'f dict \<Rightarrow> string option" where
  "index_entry E C meta =
     (if \<not> py_bool E (dict_get meta ''icon_name'' JNull) then None
      else (case icon_hash C (icon_url E (dict_get meta ''icon_name'' JNull)) of
              Inr (Some h) \<Rightarrow> Some h
            | _ \<Rightarrow> None))"

text \<open>A table of three records, for the index builder.\<close>

definition ex_table :: "unit table" where
  "ex_table =
     [(''10000002'',
       [(''name'', JStr ''Kamisato Ayaka''), (''rarity'', JInt 4), (''element'', JNull),
        (''weapon_type'', JStr ''Sword''), (''icon_name'', JStr ''UI_AvatarIcon_Ayaka'')]),
      (''11101'',
       [(''name'', JStr ''#11101''), (''rarity'', JInt 9), (''type'', JStr ''Sword''),
        (''icon_name'', JStr ''UI_EquipIcon_Sword_Blunt'')]),
      (''7'',
       [(''name'', JStr ''#7''), (''rarity'', JInt 3), (''element'', JNull),
        (''weapon_type'', JStr ''None''), (''icon_name'', JStr ''UI_AvatarIcon_A'')])]"

section \<open>OpenCV's resize from 8 to 9 columns\<close>

text \<open>
  \<^verbatim>\<open>cv2.resize\<close> is library code, not part of the repository. For the ramp example the
  call is \<^verbatim>\<open>cv2.resize(gray, (9, 8), interpolation=cv2.INTER_AREA)\<close> on an 8-bit image of 8
  rows and 8 columns. The target is wider than the source, and OpenCV then computes
  \<^verbatim>\<open>INTER_AREA\<close> with its fixed-point bilinear code (imgproc, \<^verbatim>\<open>resize.cpp\<close>):
  for the target column \<open>dx\<close>, the source column is \<open>sx = floor(dx * 8/9)\<close> and the weight of
  its right neighbour is \<open>fx = (dx + 1) - (sx + 1) * 9/8\<close>, taken as 0 when negative, stored
  as the integer \<open>fx * 2048\<close>; the horizontal pass gives
  \<open>S = src[sx] * (2048 - a) + src[sx + 1] * a\<close> (and \<open>src[sx] * 2048\<close> in the last
  column); the row count is unchanged, so the vertical weights are 2048 and 0, and the
  vertical pass gives \<open>(((2048 * (S >> 4)) >> 16) + 2) >> 2\<close>. Pixel values are numbers from
  0 to 255. On the row 0, 36, 73, 109, 146, 182, 219, 255 this gives
  0, 32, 64, 96, 128, 160, 191, 224, 255.
\<close>

definition cv_sx :: "nat \<Rightarrow> nat" where
  "cv_sx dx = (dx * 8) div 9"

definition cv_alpha :: "nat \<Rightarrow> nat" where
  "cv_alpha dx = 2048 * (dx + 1) - 2304 * (cv_sx dx + 1)"

definition cv_hresize :: "nat list \<Rightarrow> nat \<Rightarrow> nat" where
  "cv_hresize row dx =
     (let sx = cv_sx dx; a = cv_alpha dx
      in if sx + 1 \<ge> length row then row ! (length row - 1) * 2048
         else row ! sx * (2048 - a) + row ! (sx + 1) * a)"

definition cv_vresize :: "nat \<Rightarrow> nat" where
  "cv_vresize s = ((2048 * (s div 16)) div 65536 + 2) div 4"

definition cv_resize_row_8_to_9 :: "nat list \<Rightarrow> nat list" where
  "cv_resize_row_8_to_9 row = map (\<lambda>dx. cv_vresize (cv_hresize row dx)) [0, 1, 2, 3, 4, 5, 6, 7, 8]"

text \<open>
  The evenly spaced ramp, a strictly increasing row with steps of 1, and a stand-in for the
  OpenCV calls that knows only this resize (grayscale conversion is the identity on an image
  that is already a list of rows).
\<close>

definition ex_ramp :: "nat list list" where
  "ex_ramp = replicate 8 [0, 36, 73, 109, 146, 182, 219, 255]"

definition ex_steps :: "nat list list" where
  "ex_steps = replicate 8 [0, 1, 2, 3, 4, 5, 6, 255]"

definition cv_up :: "(string, nat list list, nat) cvenv" where
  "cv_up = \<lparr> http_get_bytes = (\<lambda>url. Inl URLError),
             imdecode = (\<lambda>png. Inr None),
             to_bgr = Inr,
             cvtColor_gray = Inr,
             resize_area = (\<lambda>g sz.
               if sz = (9, 8) \<and> length g = 8 \<and> list_all (\<lambda>row. length row = 8) g
               then Inr (map cv_resize_row_8_to_9 g)
               else Inl CvError) \<rparr>"

section \<open>Evaluation lemmas\<close>

lemma int_str_10000002: "int_str 10000002 = ''10000002''"
  by (simp add: int_str_def dec_digits.simps digit_char_def)

section \<open>The selector loop\<close>

lemma set_update_subset: "set (AList.update k v al) \<subseteq> insert (k, v) (set al)"
  by (induction al) auto

lemma select_loop_inv:
  assumes "P out" and "\<And>out a. P out \<Longrightarrow> a \<in> set xs \<Longrightarrow> P (step out a)"
  shows "P (select_loop N step out xs)"
  using assms by (induction xs arbitrary: out) auto

lemma select_loop_prefix:
  "N \<le> int (length (select_loop N step out ys)) \<Longrightarrow>
   select_loop N step out (ys @ zs) = select_loop N step out ys"
proof (induction ys arbitrary: out)
  case Nil
  then show ?case by (cases zs) auto
next
  case (Cons a ys)
  then show ?case by auto
qed

lemma char_step_eq:
  "char_step E tm out a =
     (if char_accept E a then AList.update (table_key E a) (char_value E tm a) out else out)"
  by (auto simp: char_step_def char_accept_def table_key_def char_value_def Let_def
           split: option.splits)

lemma weap_step_eq:
  "weap_step E tm out w =
     (if weap_accept E w then AList.update (table_key E w) (weap_value E tm w) out else out)"
  by (auto simp: weap_step_def weap_accept_def table_key_def weap_value_def Let_def
           split: sum.splits)

text \<open>
  The loop stops at \<open>N\<close> keys: the table has as many entries as there are distinct keys
  among the accepted candidates, up to \<open>N\<close>.
\<close>

lemma select_loop_length:
  assumes step: "\<And>out a. step out a = (if acc a then AList.update (key a) (val a) out else out)"
    and "distinct (map fst out)" and "int (length out) \<le> N"
  shows "length (select_loop N step out xs)
         = min (nat N) (card (fst ` set out \<union> key ` {a \<in> set xs. acc a}))"
  using assms(2,3)
proof (induction xs arbitrary: out)
  case Nil
  then have "card (fst ` set out) = length out"
    using distinct_card[of "map fst out"] by simp
  with Nil show ?case by simp
next
  case (Cons a xs)
  have fin: "finite (fst ` set out \<union> key ` {b \<in> set (a # xs). acc b})" by simp
  have cardout: "card (fst ` set out) = length out"
    using Cons.prems distinct_card[of "map fst out"] by simp
  show ?case
  proof (cases "N \<le> int (length out)")
    case True
    then have len: "length out = nat N" using Cons.prems by simp
    have "card (fst ` set out) \<le> card (fst ` set out \<union> key ` {b \<in> set (a # xs). acc b})"
      by (rule card_mono[OF fin]) simp
    then show ?thesis using True len cardout by simp
  next
    case False
    have d: "distinct (map fst (step out a))"
      using Cons.prems by (simp add: step distinct_update)
    have "length (step out a) \<le> Suc (length out)"
      by (simp add: step) (metis length_map update_keys length_append_singleton le_SucI le_refl)
    then have l: "int (length (step out a)) \<le> N" using False by simp
    have s: "fst ` set (step out a) \<union> key ` {b \<in> set xs. acc b}
             = fst ` set out \<union> key ` {b \<in> set (a # xs). acc b}"
      by (auto simp: step dom_update)
    show ?thesis using False Cons.IH[OF d l] s by simp
  qed
qed

lemma select_loop_entries:
  assumes step: "\<And>out a. step out a = (if acc a then AList.update (key a) (val a) out else out)"
    and "kr \<in> set (select_loop N step out xs)"
  shows "kr \<in> set out \<or> (\<exists>a \<in> set xs. acc a \<and> kr = (key a, val a))"
proof -
  let ?P = "\<lambda>out'. \<forall>kr \<in> set out'. kr \<in> set out \<or> (\<exists>a \<in> set xs. acc a \<and> kr = (key a, val a))"
  have "?P (select_loop N step out xs)"
  proof (rule select_loop_inv)
    show "?P out" by simp
  next
    fix out' a assume p: "?P out'" and a: "a \<in> set xs"
    show "?P (step out' a)"
    proof
      fix kr assume "kr \<in> set (step out' a)"
      then have "kr \<in> set out' \<or> (acc a \<and> kr = (key a, val a))"
        using set_update_subset[of "key a" "val a" out'] by (auto simp: step split: if_splits)
      then show "kr \<in> set out \<or> (\<exists>a \<in> set xs. acc a \<and> kr = (key a, val a))"
        using p a by auto
    qed
  qed
  then show ?thesis using assms(2) by blast
qed

section \<open>The sort by id\<close>

lemma sort_keys_Inr:
  "sort_keys E xs = Inr kds \<Longrightarrow>
   map (JObj \<circ> snd) kds = xs \<and> (\<forall>kd \<in> set kds. py_int E (dict_get (snd kd) ''id'' (JInt 0)) = Inr (fst kd))"
proof (induction xs arbitrary: kds)
  case Nil
  then show ?case by auto
next
  case (Cons x xs)
  then show ?case
    by (auto simp: id_key_def split: sum.splits json.splits)
qed

lemma sort_keys_Inl:
  "(\<exists>x \<in> set xs. isl (id_key E x)) \<longleftrightarrow> isl (sort_keys E xs)"
  by (induction xs) (auto split: sum.splits)

lemma sorted_by_id_Inr:
  assumes "sorted_by_id E xs = Inr s"
  shows "mset (map JObj s) = mset xs"
    and "sorted (map (\<lambda>d. projr (py_int E (dict_get d ''id'' (JInt 0)))) s)"
proof -
  from assms obtain kds where k: "sort_keys E xs = Inr kds" and s: "s = map snd (sort_key fst kds)"
    by (auto simp: sorted_by_id_def split: sum.splits)
  note sk = sort_keys_Inr[OF k]
  have "mset (map JObj s) = mset (map (JObj \<circ> snd) (sort_key fst kds))"
    by (simp add: s)
  also have "\<dots> = image_mset (JObj \<circ> snd) (mset (sort_key fst kds))" by simp
  also have "\<dots> = mset (map (JObj \<circ> snd) kds)" by simp
  finally show "mset (map JObj s) = mset xs" using sk by simp
  have "\<forall>kd \<in> set (sort_key fst kds). projr (py_int E (dict_get (snd kd) ''id'' (JInt 0))) = fst kd"
    using sk by simp
  then have "map (\<lambda>d. projr (py_int E (dict_get d ''id'' (JInt 0)))) s = map fst (sort_key fst kds)"
    by (simp add: s)
  then show "sorted (map (\<lambda>d. projr (py_int E (dict_get d ''id'' (JInt 0)))) s)"
    by simp
qed

lemma sorted_by_id_set:
  "sorted_by_id E xs = Inr s \<Longrightarrow> JObj ` set s = set xs"
  using sorted_by_id_Inr(1)[of E xs s] by (metis set_map set_mset_mset)

lemma sorted_by_id_isl:
  "isl (sorted_by_id E xs) \<longleftrightarrow> (\<exists>x \<in> set xs. isl (id_key E x))"
  by (auto simp: sorted_by_id_def sort_keys_Inl split: sum.splits)

section \<open>Tables on the example inputs, and where table entries come from\<close>

lemma int_str_11101: "int_str 11101 = ''11101''"
  by (simp add: int_str_def dec_digits.simps digit_char_def)

lemma int_str_456: "int_str 456 = ''456''"
  by (simp add: int_str_def dec_digits.simps digit_char_def)

lemmas eval_defs = build_characters_def build_weapons_def sorted_by_id_def id_key_def py_int_def
  dict_get_def char_step_def weap_step_def char_record_def weap_record_def py_bool_def py_str_def
  startswith_def rarity_from_quality_def weapon_type_short_def

lemma ex_characters:
  "build_characters env0 30 [JObj ex_avatar] ex_textmap
   = Inr [(''10000002'',
           [(''name'', JStr ''Kamisato Ayaka''), (''rarity'', JInt 4), (''element'', JNull),
            (''weapon_type'', JStr ''Sword''), (''icon_name'', JStr ''UI_AvatarIcon_Ayaka'')])]"
  by (simp add: eval_defs ex_avatar_def ex_textmap_def int_str_10000002)

lemma ex_weapons:
  "build_weapons env0 30 [JObj ex_weapon] ex_textmap
   = Inr [(''11101'',
           [(''name'', JStr ''#11101''), (''rarity'', JInt 9), (''type'', JStr ''Sword''),
            (''icon_name'', JStr ''UI_EquipIcon_Sword_Blunt'')])]"
  by (simp add: eval_defs ex_weapon_def ex_textmap_def int_str_11101 int_str_456)

lemma char_table_entry:
  assumes "build_characters E N avatars tm = Inr tbl" and "(k, r) \<in> set tbl"
  shows "\<exists>a. JObj a \<in> set avatars \<and> char_accept E a \<and> k = table_key E a \<and> r = char_value E tm a"
proof -
  from assms(1) obtain s where s: "sorted_by_id E avatars = Inr s"
    and t: "tbl = select_loop N (char_step E tm) [] s"
    by (auto simp: build_characters_def split: sum.splits)
  from select_loop_entries[of "char_step E tm" "char_accept E" "table_key E" "char_value E tm" "(k, r)" N "[]" s]
  obtain a where "a \<in> set s" "char_accept E a" "(k, r) = (table_key E a, char_value E tm a)"
    using assms(2) t by (auto simp: char_step_eq)
  then show ?thesis using sorted_by_id_set[OF s] by auto
qed

lemma weap_table_entry:
  assumes "build_weapons E N weapons tm = Inr tbl" and "(k, r) \<in> set tbl"
  shows "\<exists>w. JObj w \<in> set weapons \<and> weap_accept E w \<and> k = table_key E w \<and> r = weap_value E tm w"
proof -
  from assms(1) obtain s where s: "sorted_by_id E weapons = Inr s"
    and t: "tbl = select_loop N (weap_step E tm) [] s"
    by (auto simp: build_weapons_def split: sum.splits)
  from select_loop_entries[of "weap_step E tm" "weap_accept E" "table_key E" "weap_value E tm" "(k, r)" N "[]" s]
  obtain a where "a \<in> set s" "weap_accept E a" "(k, r) = (table_key E a, weap_value E tm a)"
    using assms(2) t by (auto simp: weap_step_eq)
  then show ?thesis using sorted_by_id_set[OF s] by auto
qed

section \<open>The end-to-end example\<close>

text \<open>
  C8. Given the character candidate
  \<^verbatim>\<open>{id:10000002, iconName:"UI_AvatarIcon_Ayaka", qualityType:"QUALITY_PURPLE",
  weaponType:"WEAPON_SWORD_ONE_HAND", nameTextMapHash:"123"}\<close> and the text map
  \<^verbatim>\<open>{"123":"Kamisato Ayaka"}\<close>, the character table (default maximum 30) maps the key
  \<^verbatim>\<open>"10000002"\<close> to exactly \<^verbatim>\<open>{name:"Kamisato Ayaka", rarity:4, element:null,
  weapon_type:"Sword", icon_name:"UI_AvatarIcon_Ayaka"}\<close>, and holds nothing else.
\<close>

theorem ayaka_example:
  "build_characters E 30
     [JObj [(''id'', JInt 10000002), (''iconName'', JStr ''UI_AvatarIcon_Ayaka''),
            (''qualityType'', JStr ''QUALITY_PURPLE''),
            (''weaponType'', JStr ''WEAPON_SWORD_ONE_HAND''),
            (''nameTextMapHash'', JStr ''123'')]]
     [(''123'', JStr ''Kamisato Ayaka'')]
   = Inr [(''10000002'',
           [(''name'', JStr ''Kamisato Ayaka''), (''rarity'', JInt 4), (''element'', JNull),
            (''weapon_type'', JStr ''Sword''), (''icon_name'', JStr ''UI_AvatarIcon_Ayaka'')])]"
  by (simp add: build_characters_def sorted_by_id_def id_key_def py_int_def dict_get_def
      char_step_def char_record_def py_bool_def py_str_def int_str_10000002 startswith_def
      rarity_from_quality_def weapon_type_short_def)

section \<open>Record schema\<close>

text \<open>
  C3 (as the code has it). Every record of the characters table has exactly the keys
  name, rarity, element, weapon\_type, icon\_name, in this order, and its element is null.
  Every record of the weapons table has exactly the keys name, rarity, type, icon\_name:
  the weapons builder writes the weapon-type label under \<^verbatim>\<open>type\<close> and stores no
  \<^verbatim>\<open>element\<close>.
\<close>

theorem table_record_keys:
  "(build_characters E N avatars tm = Inr tbl \<longrightarrow>
      (\<forall>(k, r) \<in> set tbl.
         map fst r = [''name'', ''rarity'', ''element'', ''weapon_type'', ''icon_name'']
         \<and> map_of r ''element'' = Some JNull))
   \<and> (build_weapons E M weapons tm = Inr wtbl \<longrightarrow>
      (\<forall>(k, r) \<in> set wtbl. map fst r = [''name'', ''rarity'', ''type'', ''icon_name'']))"
proof (intro conjI impI)
  assume b: "build_characters E N avatars tm = Inr tbl"
  show "\<forall>(k, r) \<in> set tbl.
         map fst r = [''name'', ''rarity'', ''element'', ''weapon_type'', ''icon_name'']
         \<and> map_of r ''element'' = Some JNull"
    using char_table_entry[OF b] by (fastforce simp: char_value_def char_record_def)
next
  assume b: "build_weapons E M weapons tm = Inr wtbl"
  show "\<forall>(k, r) \<in> set wtbl. map fst r = [''name'', ''rarity'', ''type'', ''icon_name'']"
    using weap_table_entry[OF b] by (fastforce simp: weap_value_def weap_record_def)
qed

text \<open>The schema on the example avatar and an example weapon.\<close>

theorem table_record_keys_witness:
  "build_characters env0 30 [JObj ex_avatar] ex_textmap
     = Inr [(''10000002'',
           [(''name'', JStr ''Kamisato Ayaka''), (''rarity'', JInt 4), (''element'', JNull),
            (''weapon_type'', JStr ''Sword''), (''icon_name'', JStr ''UI_AvatarIcon_Ayaka'')])]
   \<and> build_weapons env0 30 [JObj ex_weapon] ex_textmap
     = Inr [(''11101'',
           [(''name'', JStr ''#11101''), (''rarity'', JInt 9), (''type'', JStr ''Sword''),
            (''icon_name'', JStr ''UI_EquipIcon_Sword_Blunt'')])]
   \<and> map fst [(''name'', JStr ''Kamisato Ayaka''), (''rarity'', JInt 4), (''element'', JNull),
            (''weapon_type'', JStr ''Sword''), (''icon_name'', JStr ''UI_AvatarIcon_Ayaka'' :: unit json)]
       = [''name'', ''rarity'', ''element'', ''weapon_type'', ''icon_name'']
   \<and> map_of [(''name'', JStr ''Kamisato Ayaka''), (''rarity'', JInt 4), (''element'', JNull),
            (''weapon_type'', JStr ''Sword''), (''icon_name'', JStr ''UI_AvatarIcon_Ayaka'')] ''element''
       = Some (JNull :: unit json)
   \<and> map fst [(''name'', JStr ''#11101''), (''rarity'', JInt 9), (''type'', JStr ''Sword''),
            (''icon_name'', JStr ''UI_EquipIcon_Sword_Blunt'' :: unit json)]
       = [''name'', ''rarity'', ''type'', ''icon_name'']"
  using table_record_keys[of env0 30 "[JObj ex_avatar]" ex_textmap _ 30 "[JObj ex_weapon]", OF]
    ex_characters ex_weapons by simp

text \<open>A weapons record has neither \<^verbatim>\<open>element\<close> nor \<^verbatim>\<open>weapon_type\<close>.\<close>

theorem weapon_record_keys_counterexample:
  "build_weapons env0 30 [JObj ex_weapon] ex_textmap
     = Inr [(''11101'',
           [(''name'', JStr ''#11101''), (''rarity'', JInt 9), (''type'', JStr ''Sword''),
            (''icon_name'', JStr ''UI_EquipIcon_Sword_Blunt'')])]
   \<and> map fst [(''name'', JStr ''#11101''), (''rarity'', JInt 9), (''type'', JStr ''Sword''),
            (''icon_name'', JStr ''UI_EquipIcon_Sword_Blunt'' :: unit json)]
      \<noteq> [''name'', ''rarity'', ''element'', ''weapon_type'', ''icon_name'']"
  using ex_weapons by simp

section \<open>Rarity\<close>

lemma rarity_from_quality_range:
  "rarity_from_quality q = Some n \<Longrightarrow> 1 \<le> n \<and> n \<le> 5"
  by (auto simp: rarity_from_quality_def split: if_splits)

text \<open>
  C4 (as the code has it). Every record of the characters table has an integer rarity in
  1..5. Every record of the weapons table has as rarity the integer that
  \<^verbatim>\<open>int(rankLevel)\<close> gives for one of the weapon candidates; the weapons builder checks
  no range.
\<close>

theorem table_rarity:
  "(build_characters E N avatars tm = Inr tbl \<longrightarrow>
      (\<forall>(k, r) \<in> set tbl. \<exists>n. map_of r ''rarity'' = Some (JInt n) \<and> 1 \<le> n \<and> n \<le> 5))
   \<and> (build_weapons E M weapons tm = Inr wtbl \<longrightarrow>
      (\<forall>(k, r) \<in> set wtbl. \<exists>w n. JObj w \<in> set weapons
          \<and> py_int E (dict_get w ''rankLevel'' JNull) = Inr n
          \<and> map_of r ''rarity'' = Some (JInt n)))"
proof (intro conjI impI)
  assume b: "build_characters E N avatars tm = Inr tbl"
  show "\<forall>(k, r) \<in> set tbl. \<exists>n. map_of r ''rarity'' = Some (JInt n) \<and> 1 \<le> n \<and> n \<le> 5"
  proof (clarify)
    fix k r assume "(k, r) \<in> set tbl"
    from char_table_entry[OF b this] obtain a where a: "char_accept E a" "r = char_value E tm a"
      by blast
    from a(1) obtain n where n: "rarity_from_quality (py_str E (dict_get a ''qualityType'' JNull)) = Some n"
      by (auto simp: char_accept_def)
    have "map_of r ''rarity'' = Some (JInt n)"
      by (simp add: a(2) char_value_def char_record_def n)
    then show "\<exists>n. map_of r ''rarity'' = Some (JInt n) \<and> 1 \<le> n \<and> n \<le> 5"
      using rarity_from_quality_range[OF n] by blast
  qed
next
  assume b: "build_weapons E M weapons tm = Inr wtbl"
  show "\<forall>(k, r) \<in> set wtbl. \<exists>w n. JObj w \<in> set weapons
          \<and> py_int E (dict_get w ''rankLevel'' JNull) = Inr n
          \<and> map_of r ''rarity'' = Some (JInt n)"
  proof (clarify)
    fix k r assume "(k, r) \<in> set wtbl"
    from weap_table_entry[OF b this] obtain w where w: "JObj w \<in> set weapons" "weap_accept E w"
      "r = weap_value E tm w" by blast
    from w(2) obtain n where n: "py_int E (dict_get w ''rankLevel'' JNull) = Inr n"
      by (auto simp: weap_accept_def isl_def) (metis sum.collapse(2) isl_def)
    have "map_of r ''rarity'' = Some (JInt n)"
      by (simp add: w(3) weap_value_def weap_record_def n)
    then show "\<exists>w n. JObj w \<in> set weapons
          \<and> py_int E (dict_get w ''rankLevel'' JNull) = Inr n
          \<and> map_of r ''rarity'' = Some (JInt n)"
      using w(1) n by blast
  qed
qed

text \<open>The two tables on the example inputs.\<close>

theorem table_rarity_witness:
  "build_characters env0 30 [JObj ex_avatar] ex_textmap
     = Inr [(''10000002'',
           [(''name'', JStr ''Kamisato Ayaka''), (''rarity'', JInt 4), (''element'', JNull),
            (''weapon_type'', JStr ''Sword''), (''icon_name'', JStr ''UI_AvatarIcon_Ayaka'')])]
   \<and> build_weapons env0 30 [JObj ex_weapon] ex_textmap
     = Inr [(''11101'',
           [(''name'', JStr ''#11101''), (''rarity'', JInt 9), (''type'', JStr ''Sword''),
            (''icon_name'', JStr ''UI_EquipIcon_Sword_Blunt'')])]
   \<and> (\<exists>n. map_of [(''name'', JStr ''Kamisato Ayaka''), (''rarity'', JInt 4), (''element'', JNull),
            (''weapon_type'', JStr ''Sword''), (''icon_name'', JStr ''UI_AvatarIcon_Ayaka'' :: unit json)]
           ''rarity'' = Some (JInt n) \<and> 1 \<le> n \<and> n \<le> 5)
   \<and> (\<exists>w n. JObj w \<in> set [JObj ex_weapon]
          \<and> py_int env0 (dict_get w ''rankLevel'' JNull) = Inr n
          \<and> map_of [(''name'', JStr ''#11101''), (''rarity'', JInt 9), (''type'', JStr ''Sword''),
            (''icon_name'', JStr ''UI_EquipIcon_Sword_Blunt'' :: unit json)] ''rarity'' = Some (JInt n))"
  using table_rarity[of env0 30 "[JObj ex_avatar]" ex_textmap _ 30 "[JObj ex_weapon]"]
    ex_characters ex_weapons by (simp add: py_int_def dict_get_def ex_weapon_def)

text \<open>A weapon of rank level 9 is stored with rarity 9.\<close>

theorem weapon_rarity_counterexample:
  "build_weapons env0 30 [JObj ex_weapon] ex_textmap
     = Inr [(''11101'',
           [(''name'', JStr ''#11101''), (''rarity'', JInt 9), (''type'', JStr ''Sword''),
            (''icon_name'', JStr ''UI_EquipIcon_Sword_Blunt'')])]
   \<and> map_of [(''name'', JStr ''#11101''), (''rarity'', JInt 9), (''type'', JStr ''Sword''),
            (''icon_name'', JStr ''UI_EquipIcon_Sword_Blunt'' :: unit json)] ''rarity'' = Some (JInt 9)
   \<and> (9 :: int) \<notin> {1, 2, 3, 4, 5}"
  using ex_weapons by simp

section \<open>Absent weapon-type code\<close>

text \<open>
  C10. When the \<^verbatim>\<open>weaponType\<close> field of an accepted candidate is missing or null, the
  record stored under the candidate's key has the weapon-type label \<^verbatim>\<open>"None"\<close>
  (key \<^verbatim>\<open>weapon_type\<close> for a character, \<^verbatim>\<open>type\<close> for a weapon): the builders pass
  \<^verbatim>\<open>str(None)\<close> to \<^verbatim>\<open>weapon_type_short\<close>, which returns it unchanged.
\<close>

theorem absent_weapon_type_label:
  assumes "map_of a ''weaponType'' = None \<or> map_of a ''weaponType'' = Some JNull"
    and "map_of w ''weaponType'' = None \<or> map_of w ''weaponType'' = Some JNull"
  shows "(char_accept E a \<longrightarrow>
            map_of (char_step E tm out a) (table_key E a) = Some (char_value E tm a)
            \<and> map_of (char_value E tm a) ''weapon_type'' = Some (JStr ''None''))
       \<and> (weap_accept E w \<longrightarrow>
            map_of (weap_step E tm wout w) (table_key E w) = Some (weap_value E tm w)
            \<and> map_of (weap_value E tm w) ''type'' = Some (JStr ''None''))"
proof -
  have a: "dict_get a ''weaponType'' JNull = JNull" and w: "dict_get w ''weaponType'' JNull = JNull"
    using assms by (auto simp: dict_get_def)
  have n: "weapon_type_short (py_str E JNull) = ''None''"
    by (simp add: weapon_type_short_def py_str_def)
  show ?thesis
    by (simp add: char_step_eq weap_step_eq update_conv' char_value_def weap_value_def
        char_record_def weap_record_def a w n)
qed

text \<open>An avatar without the field and a weapon whose field is null.\<close>

theorem absent_weapon_type_label_witness:
  "map_of ex_avatar_no_wt ''weaponType'' = None
   \<and> map_of ex_weapon_null_wt ''weaponType'' = Some JNull
   \<and> char_accept env0 ex_avatar_no_wt
   \<and> weap_accept env0 ex_weapon_null_wt
   \<and> char_step env0 ex_textmap [] ex_avatar_no_wt
       = [(''10000002'',
           [(''name'', JStr ''Kamisato Ayaka''), (''rarity'', JInt 4), (''element'', JNull),
            (''weapon_type'', JStr ''None''), (''icon_name'', JStr ''UI_AvatarIcon_Ayaka'')])]
   \<and> map_of (char_value env0 ex_textmap ex_avatar_no_wt) ''weapon_type'' = Some (JStr ''None'')
   \<and> weap_step env0 ex_textmap [] ex_weapon_null_wt
       = [(''11101'',
           [(''name'', JStr ''#11101''), (''rarity'', JInt 3), (''type'', JStr ''None''),
            (''icon_name'', JStr ''UI_EquipIcon_Sword_Blunt'')])]
   \<and> map_of (weap_value env0 ex_textmap ex_weapon_null_wt) ''type'' = Some (JStr ''None'')"
  using absent_weapon_type_label[of ex_avatar_no_wt ex_weapon_null_wt env0 ex_textmap "[]" "[]"]
  by (simp add: eval_defs char_accept_def weap_accept_def ex_avatar_no_wt_def ex_weapon_null_wt_def
      ex_textmap_def int_str_10000002 int_str_11101 int_str_456 char_value_def weap_value_def)

section \<open>Cardinality of a table\<close>

lemma int_str_7: "int_str 7 = ''7''"
  by (simp add: int_str_def dec_digits.simps digit_char_def)

lemma builder_length:
  assumes "0 \<le> N"
    and step: "\<And>out a. step out a = (if acc a then AList.update (key a) (val a) out else out)"
  shows "int (length (select_loop N step [] s)) = min N (int (card (key ` {a \<in> set s. acc a})))"
  using select_loop_length[of step acc key val "[]" N s, OF step] assms(1) by simp

text \<open>
  C5 (as the code has it). For a configured maximum \<open>N \<ge> 0\<close> the table built by either
  builder has at most \<open>N\<close> entries; it has exactly \<open>N\<close> entries whenever the candidates
  that pass all filters carry at least \<open>N\<close> distinct keys \<^verbatim>\<open>str(id)\<close>; and once the table
  built from a prefix of the sorted candidates has \<open>N\<close> entries, the result is that table,
  whatever follows the prefix.
\<close>

theorem table_cardinality:
  assumes "0 \<le> N" and "0 \<le> M"
  shows "(build_characters E N avatars tm = Inr tbl \<longrightarrow> sorted_by_id E avatars = Inr s \<longrightarrow>
            int (length tbl) \<le> N
            \<and> (N \<le> int (card (table_key E ` {a \<in> set s. char_accept E a})) \<longrightarrow> int (length tbl) = N)
            \<and> (s = ys @ zs \<longrightarrow> N \<le> int (length (select_loop N (char_step E tm) [] ys)) \<longrightarrow>
                  tbl = select_loop N (char_step E tm) [] ys))
       \<and> (build_weapons E M weapons tm = Inr wtbl \<longrightarrow> sorted_by_id E weapons = Inr ws \<longrightarrow>
            int (length wtbl) \<le> M
            \<and> (M \<le> int (card (table_key E ` {w \<in> set ws. weap_accept E w})) \<longrightarrow> int (length wtbl) = M)
            \<and> (ws = wys @ wzs \<longrightarrow> M \<le> int (length (select_loop M (weap_step E tm) [] wys)) \<longrightarrow>
                  wtbl = select_loop M (weap_step E tm) [] wys))"
proof (intro conjI impI)
  assume b: "build_characters E N avatars tm = Inr tbl" and s: "sorted_by_id E avatars = Inr s"
  then have t: "tbl = select_loop N (char_step E tm) [] s"
    by (simp add: build_characters_def)
  have l: "int (length tbl) = min N (int (card (table_key E ` {a \<in> set s. char_accept E a})))"
    unfolding t by (rule builder_length[OF assms(1) char_step_eq])
  show "int (length tbl) \<le> N" using l by simp
  { assume "N \<le> int (card (table_key E ` {a \<in> set s. char_accept E a}))"
    then show "int (length tbl) = N" using l by simp }
  { assume "s = ys @ zs" "N \<le> int (length (select_loop N (char_step E tm) [] ys))"
    then show "tbl = select_loop N (char_step E tm) [] ys"
      using select_loop_prefix[of N "char_step E tm" "[]" ys zs] t by simp }
next
  assume b: "build_weapons E M weapons tm = Inr wtbl" and s: "sorted_by_id E weapons = Inr ws"
  then have t: "wtbl = select_loop M (weap_step E tm) [] ws"
    by (simp add: build_weapons_def)
  have l: "int (length wtbl) = min M (int (card (table_key E ` {w \<in> set ws. weap_accept E w})))"
    unfolding t by (rule builder_length[OF assms(2) weap_step_eq])
  show "int (length wtbl) \<le> M" using l by simp
  { assume "M \<le> int (card (table_key E ` {w \<in> set ws. weap_accept E w}))"
    then show "int (length wtbl) = M" using l by simp }
  { assume "ws = wys @ wzs" "M \<le> int (length (select_loop M (weap_step E tm) [] wys))"
    then show "wtbl = select_loop M (weap_step E tm) [] wys"
      using select_loop_prefix[of M "weap_step E tm" "[]" wys wzs] t by simp }
qed

lemma ex_sorted_avatars:
  "sorted_by_id env0 [JObj ex_avatar, JObj ex_dup_a] = Inr [ex_dup_a, ex_avatar]"
  by (simp add: sorted_by_id_def id_key_def py_int_def dict_get_def ex_avatar_def ex_dup_a_def)

lemma ex_sorted_weapon: "sorted_by_id env0 [JObj ex_weapon] = Inr [ex_weapon]"
  by (simp add: sorted_by_id_def id_key_def py_int_def dict_get_def ex_weapon_def)

lemma ex_accepts:
  "char_accept env0 ex_dup_a" "char_accept env0 ex_dup_b" "char_accept env0 ex_avatar"
  "weap_accept env0 ex_weapon"
  by (simp_all add: char_accept_def weap_accept_def eval_defs ex_dup_a_def ex_dup_b_def
      ex_avatar_def ex_weapon_def)

lemma ex_keys:
  "table_key env0 ex_dup_a = ''7''" "table_key env0 ex_dup_b = ''7''"
  "table_key env0 ex_avatar = ''10000002''" "table_key env0 ex_weapon = ''11101''"
  by (simp_all add: table_key_def py_str_def dict_get_def ex_dup_a_def ex_dup_b_def
      ex_avatar_def ex_weapon_def int_str_7 int_str_10000002 int_str_11101)

lemma ex_first_step:
  "select_loop 1 (char_step env0 ex_textmap) [] [ex_dup_a]
   = [(''7'', [(''name'', JStr ''#7''), (''rarity'', JInt 3), (''element'', JNull),
               (''weapon_type'', JStr ''None''), (''icon_name'', JStr ''UI_AvatarIcon_A'')])]"
  by (simp add: eval_defs ex_dup_a_def ex_textmap_def int_str_7)

lemma ex_weapon_step:
  "select_loop 1 (weap_step env0 ex_textmap) [] [ex_weapon]
   = [(''11101'',
           [(''name'', JStr ''#11101''), (''rarity'', JInt 9), (''type'', JStr ''Sword''),
            (''icon_name'', JStr ''UI_EquipIcon_Sword_Blunt'')])]"
  by (simp add: eval_defs ex_weapon_def ex_textmap_def int_str_11101 int_str_456)

lemma ex_char_keys_card:
  "card (table_key env0 ` {a \<in> set ([ex_dup_a] @ [ex_avatar]). char_accept env0 a}) = 2"
proof -
  have "{a \<in> set ([ex_dup_a] @ [ex_avatar]). char_accept env0 a} = {ex_dup_a, ex_avatar}"
    using ex_accepts by auto
  then show ?thesis by (simp add: ex_keys)
qed

lemma ex_weap_keys_card:
  "card (table_key env0 ` {w \<in> set ([ex_weapon] @ []). weap_accept env0 w}) = 1"
proof -
  have "{w \<in> set ([ex_weapon] @ []). weap_accept env0 w} = {ex_weapon}"
    using ex_accepts by auto
  then show ?thesis by simp
qed

text \<open>Maximum 1: the candidate of id 7 fills the table, the one of id 10000002 is not reached.\<close>

theorem table_cardinality_witness:
  "(0::int) \<le> 1
   \<and> build_characters env0 1 [JObj ex_avatar, JObj ex_dup_a] ex_textmap
       = Inr [(''7'', [(''name'', JStr ''#7''), (''rarity'', JInt 3), (''element'', JNull),
               (''weapon_type'', JStr ''None''), (''icon_name'', JStr ''UI_AvatarIcon_A'')])]
   \<and> sorted_by_id env0 [JObj ex_avatar, JObj ex_dup_a] = Inr ([ex_dup_a] @ [ex_avatar])
   \<and> 1 \<le> int (card (table_key env0 ` {a \<in> set ([ex_dup_a] @ [ex_avatar]). char_accept env0 a}))
   \<and> 1 \<le> int (length (select_loop 1 (char_step env0 ex_textmap) [] [ex_dup_a]))
   \<and> int (length [(''7'', [(''name'', JStr ''#7''), (''rarity'', JInt 3), (''element'', JNull),
               (''weapon_type'', JStr ''None''), (''icon_name'', JStr ''UI_AvatarIcon_A'' :: unit json)])]) = 1
   \<and> [(''7'', [(''name'', JStr ''#7''), (''rarity'', JInt 3), (''element'', JNull),
               (''weapon_type'', JStr ''None''), (''icon_name'', JStr ''UI_AvatarIcon_A'')])]
       = select_loop 1 (char_step env0 ex_textmap) [] [ex_dup_a]
   \<and> build_weapons env0 1 [JObj ex_weapon] ex_textmap
       = Inr [(''11101'',
           [(''name'', JStr ''#11101''), (''rarity'', JInt 9), (''type'', JStr ''Sword''),
            (''icon_name'', JStr ''UI_EquipIcon_Sword_Blunt'')])]
   \<and> sorted_by_id env0 [JObj ex_weapon] = Inr ([ex_weapon] @ [])
   \<and> 1 \<le> int (card (table_key env0 ` {w \<in> set ([ex_weapon] @ []). weap_accept env0 w}))
   \<and> 1 \<le> int (length (select_loop 1 (weap_step env0 ex_textmap) [] [ex_weapon]))
   \<and> int (length [(''11101'',
           [(''name'', JStr ''#11101''), (''rarity'', JInt 9), (''type'', JStr ''Sword''),
            (''icon_name'', JStr ''UI_EquipIcon_Sword_Blunt'' :: unit json)])]) = 1
   \<and> [(''11101'',
           [(''name'', JStr ''#11101''), (''rarity'', JInt 9), (''type'', JStr ''Sword''),
            (''icon_name'', JStr ''UI_EquipIcon_Sword_Blunt'')])]
       = select_loop 1 (weap_step env0 ex_textmap) [] [ex_weapon]"
proof -
  let ?T = "[(''7'', [(''name'', JStr ''#7''), (''rarity'', JInt 3), (''element'', JNull),
               (''weapon_type'', JStr ''None''), (''icon_name'', JStr ''UI_AvatarIcon_A'' :: unit json)])]"
  let ?W = "[(''11101'',
           [(''name'', JStr ''#11101''), (''rarity'', JInt 9), (''type'', JStr ''Sword''),
            (''icon_name'', JStr ''UI_EquipIcon_Sword_Blunt'' :: unit json)])]"
  have n: "(0::int) \<le> 1" by simp
  have s: "sorted_by_id env0 [JObj ex_avatar, JObj ex_dup_a] = Inr ([ex_dup_a] @ [ex_avatar])"
    using ex_sorted_avatars by simp
  have b: "build_characters env0 1 [JObj ex_avatar, JObj ex_dup_a] ex_textmap = Inr ?T"
    using ex_first_step by (simp add: build_characters_def ex_sorted_avatars)
  have c: "1 \<le> int (card (table_key env0 ` {a \<in> set ([ex_dup_a] @ [ex_avatar]). char_accept env0 a}))"
    unfolding ex_char_keys_card by simp
  have p: "1 \<le> int (length (select_loop 1 (char_step env0 ex_textmap) [] [ex_dup_a]))"
    unfolding ex_first_step by simp
  have ws: "sorted_by_id env0 [JObj ex_weapon] = Inr ([ex_weapon] @ [])"
    using ex_sorted_weapon by simp
  have wb: "build_weapons env0 1 [JObj ex_weapon] ex_textmap = Inr ?W"
    using ex_weapon_step by (simp add: build_weapons_def ex_sorted_weapon)
  have wc: "1 \<le> int (card (table_key env0 ` {w \<in> set ([ex_weapon] @ []). weap_accept env0 w}))"
    unfolding ex_weap_keys_card by simp
  have wp: "1 \<le> int (length (select_loop 1 (weap_step env0 ex_textmap) [] [ex_weapon]))"
    unfolding ex_weapon_step by simp
  note T = table_cardinality[OF n n, of env0 "[JObj ex_avatar, JObj ex_dup_a]" ex_textmap ?T
      "[ex_dup_a] @ [ex_avatar]" "[ex_dup_a]" "[ex_avatar]" "[JObj ex_weapon]" ?W
      "[ex_weapon] @ []" "[ex_weapon]" "[]"]
  show ?thesis using T n s b c p ws wb wc wp by blast
qed

text \<open>
  Two candidates of id 7 pass all filters, the maximum is 2, and the table has one entry
  (the second candidate overwrites the first).
\<close>

theorem duplicate_id_counterexample:
  "build_characters env0 2 [JObj ex_dup_a, JObj ex_dup_b] ex_textmap
     = Inr [(''7'', [(''name'', JStr ''#7''), (''rarity'', JInt 5), (''element'', JNull),
               (''weapon_type'', JStr ''None''), (''icon_name'', JStr ''UI_AvatarIcon_B'')])]
   \<and> sorted_by_id env0 [JObj ex_dup_a, JObj ex_dup_b] = Inr [ex_dup_a, ex_dup_b]
   \<and> length (filter (char_accept env0) [ex_dup_a, ex_dup_b]) = 2
   \<and> length [(''7'', [(''name'', JStr ''#7''), (''rarity'', JInt 5), (''element'', JNull),
               (''weapon_type'', JStr ''None''), (''icon_name'', JStr ''UI_AvatarIcon_B'' :: unit json)])] \<noteq> 2"
  by (simp add: eval_defs ex_dup_a_def ex_dup_b_def ex_textmap_def int_str_7 char_accept_def)

section \<open>The initial sort\<close>

lemma id_key_missing:
  "map_of d ''id'' = None \<Longrightarrow> id_key E (JObj d) = Inr (0, d)"
  by (simp add: id_key_def dict_get_def py_int_def)

lemma missing_id_rejected:
  "map_of d ''id'' = None \<Longrightarrow> \<not> char_accept E d \<and> \<not> weap_accept E d"
  by (simp add: char_accept_def weap_accept_def dict_get_def py_bool_def)

text \<open>
  C9 (as the code has it). The sort key is \<^verbatim>\<open>int(x.get("id", 0))\<close>. A candidate with a
  missing id has key 0, raises nothing in the sort, and is rejected by the filter step of
  both builders. When the key of every candidate can be computed, the sort returns the
  candidates in ascending key order. A candidate whose id does not convert (a non-numeric
  string, null, a list) is not treated as 0: the sort raises, and so do both builders.
\<close>

theorem sort_by_id_result:
  "(map_of d ''id'' = None \<longrightarrow>
      id_key E (JObj d) = Inr (0, d) \<and> \<not> char_accept E d \<and> \<not> weap_accept E d)
   \<and> ((\<forall>x \<in> set xs. \<not> isl (id_key E x)) \<longrightarrow>
        (\<exists>s. sorted_by_id E xs = Inr s \<and> mset (map JObj s) = mset xs
             \<and> sorted (map (\<lambda>d. projr (py_int E (dict_get d ''id'' (JInt 0)))) s)))
   \<and> ((\<exists>x \<in> set ys. isl (id_key E x)) \<longrightarrow>
        isl (sorted_by_id E ys) \<and> isl (build_characters E N ys tm) \<and> isl (build_weapons E M ys tm))"
proof (intro conjI impI)
  assume "\<forall>x \<in> set xs. \<not> isl (id_key E x)"
  then have "\<not> isl (sorted_by_id E xs)" by (simp add: sorted_by_id_isl)
  then obtain s where s: "sorted_by_id E xs = Inr s" by (cases "sorted_by_id E xs") auto
  show "\<exists>s. sorted_by_id E xs = Inr s \<and> mset (map JObj s) = mset xs
             \<and> sorted (map (\<lambda>d. projr (py_int E (dict_get d ''id'' (JInt 0)))) s)"
    using s sorted_by_id_Inr[OF s] by blast
next
  assume "\<exists>x \<in> set ys. isl (id_key E x)"
  then have i: "isl (sorted_by_id E ys)" by (simp add: sorted_by_id_isl)
  then show "isl (sorted_by_id E ys)" .
  from i show "isl (build_characters E N ys tm)"
    by (auto simp: build_characters_def split: sum.splits)
  from i show "isl (build_weapons E M ys tm)"
    by (auto simp: build_weapons_def split: sum.splits)
qed (simp_all add: id_key_missing missing_id_rejected)

lemma int_of_str_12: "int_of_str ''12'' = Inr 12"
  by (simp add: int_of_str_def is_int_space_def is_digit_def)

lemma int_of_str_abc: "int_of_str ''abc'' = Inl ValueError"
  by (simp add: int_of_str_def is_int_space_def is_digit_def)

lemma ex_ids_sorted:
  "sorted_by_id env0 ex_ids = Inr [[], [(''id'', JInt 5)], [(''id'', JStr ''12'')]]"
  by (simp add: ex_ids_def sorted_by_id_def id_key_def py_int_def dict_get_def env0_def int_of_str_12)

lemma ex_bad_id_raises: "sorted_by_id env0 ex_bad_id = Inl ValueError"
  by (simp add: ex_bad_id_def sorted_by_id_def id_key_def py_int_def dict_get_def env0_def int_of_str_abc)

text \<open>An id-less candidate sorts first; the id \<^verbatim>\<open>"abc"\<close> makes the sort raise.\<close>

theorem sort_by_id_result_witness:
  "map_of ([] :: unit dict) ''id'' = None
   \<and> id_key env0 (JObj []) = Inr (0, [])
   \<and> \<not> char_accept env0 [] \<and> \<not> weap_accept env0 []
   \<and> list_all (\<lambda>x. \<not> isl (id_key env0 x)) ex_ids
   \<and> sorted_by_id env0 ex_ids = Inr [[], [(''id'', JInt 5)], [(''id'', JStr ''12'')]]
   \<and> list_ex (\<lambda>x. isl (id_key env0 x)) ex_bad_id
   \<and> isl (sorted_by_id env0 ex_bad_id)
   \<and> isl (build_characters env0 30 ex_bad_id ex_textmap)
   \<and> isl (build_weapons env0 30 ex_bad_id ex_textmap)"
proof -
  have m: "map_of ([] :: unit dict) ''id'' = None" by simp
  have a: "\<forall>x \<in> set ex_ids. \<not> isl (id_key env0 x)"
    by (simp add: ex_ids_def id_key_def py_int_def dict_get_def env0_def int_of_str_12)
  have b: "\<exists>x \<in> set ex_bad_id. isl (id_key env0 x)"
    by (simp add: ex_bad_id_def id_key_def py_int_def dict_get_def env0_def int_of_str_abc)
  note T = sort_by_id_result[of "[]" env0 ex_ids ex_bad_id 30 ex_textmap 30]
  show ?thesis using T m a b ex_ids_sorted unfolding list_all_iff list_ex_iff by blast
qed

text \<open>The ids \<^verbatim>\<open>"abc"\<close> and null raise ValueError and TypeError.\<close>

theorem non_numeric_id_counterexample:
  "sorted_by_id env0 [JObj [(''id'', JInt 5)], JObj [(''id'', JStr ''abc'')]] = Inl ValueError
   \<and> build_characters env0 30 [JObj [(''id'', JInt 5)], JObj [(''id'', JStr ''abc'')]] ex_textmap
       = Inl ValueError
   \<and> build_weapons env0 30 [JObj [(''id'', JInt 5)], JObj [(''id'', JStr ''abc'')]] ex_textmap
       = Inl ValueError
   \<and> sorted_by_id env0 [JObj [(''id'', JNull)]] = Inl TypeError"
  using ex_bad_id_raises
  by (simp add: ex_bad_id_def build_characters_def build_weapons_def)
     (simp add: sorted_by_id_def id_key_def py_int_def dict_get_def)

section \<open>The difference hash\<close>

lemma pack_step: "push_bit 1 (v::int) OR of_bool b = 2 * v + of_bool b"
  by (cases b) (simp_all add: or_one_eq)

lemma pack_fun:
  "(\<lambda>val b. push_bit 1 (val::int) OR of_bool b) = (\<lambda>val b. 2 * val + of_bool b)"
  by (intro ext) (rule pack_step)

lemma foldl_pack:
  "foldl (\<lambda>val b. 2 * val + of_bool b) (v::int) bits
   = v * 2 ^ length bits + (\<Sum>i<length bits. of_bool (bits ! i) * 2 ^ (length bits - 1 - i))"
proof (induction bits arbitrary: v)
  case Nil
  then show ?case by simp
next
  case (Cons b bs)
  let ?n = "length bs"
  have s: "(\<Sum>i<Suc ?n. of_bool ((b # bs) ! i) * (2::int) ^ (Suc ?n - 1 - i))
           = of_bool b * 2 ^ ?n + (\<Sum>i<?n. of_bool (bs ! i) * 2 ^ (?n - 1 - i))"
    by (subst sum.lessThan_Suc_shift) simp
  have "foldl (\<lambda>val b. 2 * val + of_bool b) v (b # bs)
        = (2 * v + of_bool b) * 2 ^ ?n + (\<Sum>i<?n. of_bool (bs ! i) * 2 ^ (?n - 1 - i))"
    using Cons.IH[of "2 * v + of_bool b"] by simp
  also have "\<dots> = v * 2 ^ Suc ?n + (of_bool b * 2 ^ ?n + (\<Sum>i<?n. of_bool (bs ! i) * 2 ^ (?n - 1 - i)))"
    by (simp add: algebra_simps)
  also have "\<dots> = v * 2 ^ length (b # bs)
        + (\<Sum>i<length (b # bs). of_bool ((b # bs) ! i) * 2 ^ (length (b # bs) - 1 - i))"
    using s by simp
  finally show ?case .
qed

lemma pack_bits_sum:
  "pack_bits bits = (\<Sum>i<length bits. of_bool (bits ! i) * 2 ^ (length bits - 1 - i))"
  unfolding pack_bits_def pack_fun by (simp add: foldl_pack)

lemma diff_row_length:
  "length (map (\<lambda>(r, l). r > l) (zip (tl row) (butlast row))) = length row - 1"
  by simp

lemma diff_row_nth:
  "c + 1 < length row \<Longrightarrow>
   map (\<lambda>(r, l). r > l) (zip (tl row) (butlast row)) ! c = (row ! c < row ! (c + 1))"
  by (simp add: nth_tl nth_butlast)

lemma concat_uniform_length:
  "\<forall>xs \<in> set xss. length xs = n \<Longrightarrow> length (concat xss) = length xss * n"
  by (induction xss) auto

lemma concat_uniform_nth:
  "\<forall>xs \<in> set xss. length xs = n \<Longrightarrow> r < length xss \<Longrightarrow> c < n \<Longrightarrow>
   concat xss ! (r * n + c) = xss ! r ! c"
proof (induction xss arbitrary: r)
  case Nil
  then show ?case by simp
next
  case (Cons xs xss)
  show ?case
  proof (cases r)
    case 0
    then show ?thesis using Cons.prems by (simp add: nth_append)
  next
    case (Suc r')
    have "concat (xs # xss) ! (r * n + c) = concat xss ! (r' * n + c)"
      using Cons.prems Suc by (simp add: nth_append)
    then show ?thesis using Cons.IH[of r'] Cons.prems Suc by simp
  qed
qed

lemma dhash_hex_Inr:
  assumes "cvtColor_gray C img = Inr gray" and "resize_area C gray (hash_size + 1, hash_size) = Inr resized"
  shows "dhash_hex C img hash_size
         = Inr (hex_format (nat ((hash_size * hash_size + 3) div 4)) (pack_bits (concat (dhash_diff resized))))"
  using assms by (simp add: dhash_hex_def Let_def)

text \<open>
  C1 (as the code has it). With the resized image of \<open>hs\<close> rows and \<open>hs + 1\<close> columns,
  \<^verbatim>\<open>dhash_hex\<close> compares each pixel with its right neighbour; the bit is 1 exactly when
  the right neighbour is strictly greater than the left pixel (else 0). This gives
  \<open>hs * hs\<close> bits in row-major order, packed most-significant-first into one unsigned
  integer, which is rendered in hexadecimal.
\<close>

theorem dhash_bits_layout:
  assumes "cvtColor_gray C img = Inr gray"
    and "resize_area C gray (int hs + 1, int hs) = Inr resized"
    and "length resized = hs"
    and "\<forall>row \<in> set resized. length row = hs + 1"
  shows "dhash_hex C img (int hs)
           = Inr (hex_format ((hs * hs + 3) div 4) (pack_bits (concat (dhash_diff resized))))
       \<and> length (concat (dhash_diff resized)) = hs * hs
       \<and> (\<forall>r < hs. \<forall>c < hs.
             concat (dhash_diff resized) ! (r * hs + c) = (resized ! r ! c < resized ! r ! (c + 1)))
       \<and> pack_bits (concat (dhash_diff resized))
           = (\<Sum>i < hs * hs. of_bool (concat (dhash_diff resized) ! i) * 2 ^ (hs * hs - 1 - i))"
proof -
  have w: "nat ((int hs * int hs + 3) div 4) = (hs * hs + 3) div 4"
  proof -
    have "(int hs * int hs + 3) div 4 = int ((hs * hs + 3) div 4)"
      by (simp add: zdiv_int)
    then show ?thesis by simp
  qed
  have rows: "\<forall>xs \<in> set (dhash_diff resized). length xs = hs"
    using assms(4) by (auto simp: dhash_diff_def)
  have len: "length (dhash_diff resized) = hs"
    using assms(3) by (simp add: dhash_diff_def)
  have l: "length (concat (dhash_diff resized)) = hs * hs"
    using concat_uniform_length[OF rows] len by simp
  have n: "\<forall>r < hs. \<forall>c < hs.
             concat (dhash_diff resized) ! (r * hs + c) = (resized ! r ! c < resized ! r ! (c + 1))"
  proof (intro allI impI)
    fix r c assume r: "r < hs" and c: "c < hs"
    have "concat (dhash_diff resized) ! (r * hs + c) = dhash_diff resized ! r ! c"
      using concat_uniform_nth[OF rows] r c len by simp
    also have "\<dots> = map (\<lambda>(r, l). r > l) (zip (tl (resized ! r)) (butlast (resized ! r))) ! c"
      using r assms(3) by (simp add: dhash_diff_def)
    also have "\<dots> = (resized ! r ! c < resized ! r ! (c + 1))"
    proof (rule diff_row_nth)
      have "length (resized ! r) = hs + 1" using r assms(3,4) by simp
      then show "c + 1 < length (resized ! r)" using c by simp
    qed
    finally show "concat (dhash_diff resized) ! (r * hs + c) = (resized ! r ! c < resized ! r ! (c + 1))" .
  qed
  show ?thesis
    using dhash_hex_Inr[OF assms(1,2)] l n pack_bits_sum[of "concat (dhash_diff resized)"]
    by (simp add: w)
qed

lemma hex_digits_12: "hex_format (Suc 0) 12 = ''c''"
  by (simp add: hex_format_def hex_digits.simps digit_char_def)

lemma hex_digits_0: "hex_format (Suc 0) 0 = ''0''"
  by (simp add: hex_format_def hex_digits.simps digit_char_def)

text \<open>A 2x3 image: rows 1 2 3 and 3 2 1 give the bits 1100, the integer 12, the text c.\<close>

theorem dhash_bits_layout_witness:
  "cvtColor_gray cv0 ex_img2 = Inr ex_img2
   \<and> resize_area cv0 ex_img2 (int 2 + 1, int 2) = Inr ex_img2
   \<and> length ex_img2 = 2
   \<and> list_all (\<lambda>row. length row = 2 + 1) ex_img2
   \<and> concat (dhash_diff ex_img2) = [True, True, False, False]
   \<and> pack_bits (concat (dhash_diff ex_img2)) = 12
   \<and> dhash_hex cv0 ex_img2 (int 2) = Inr ''c''"
proof -
  have h1: "cvtColor_gray cv0 ex_img2 = Inr ex_img2" by (simp add: cv0_def)
  have h2: "resize_area cv0 ex_img2 (int 2 + 1, int 2) = Inr ex_img2"
    by (simp add: cv0_def ex_img2_def)
  have h3: "length ex_img2 = 2" by (simp add: ex_img2_def)
  have h4: "\<forall>row \<in> set ex_img2. length row = 2 + 1" by (simp add: ex_img2_def)
  have b: "concat (dhash_diff ex_img2) = [True, True, False, False]"
    by (simp add: dhash_diff_def ex_img2_def)
  have p: "pack_bits [True, True, False, False] = 12"
    by (simp add: pack_bits_def)
  from dhash_bits_layout[OF h1 h2 h3 h4]
  have "dhash_hex cv0 ex_img2 (int 2)
        = Inr (hex_format ((2 * 2 + 3) div 4) (pack_bits (concat (dhash_diff ex_img2))))"
    by blast
  then have "dhash_hex cv0 ex_img2 (int 2) = Inr ''c''"
    by (simp add: b p hex_digits_12)
  then show ?thesis using h1 h2 h3 h4 b p by (simp add: list_all_iff)
qed

text \<open>A left pixel 5 greater than its right neighbour 3 gives the bit 0, not 1.\<close>

theorem left_greater_counterexample:
  "concat (dhash_diff [[5, 3 :: nat]]) = [False]
   \<and> (5 :: nat) > 3
   \<and> dhash_hex cv0 [[5, 3]] 1 = Inr ''0''"
  by (simp add: dhash_diff_def dhash_hex_def cv0_def pack_bits_def hex_digits_0)

section \<open>The hash index\<close>

lemma hash_step_eq:
  "hash_step E C idx (k, meta)
   = Inr (case index_entry E C meta of None \<Rightarrow> idx | Some h \<Rightarrow> AList.update k h idx)"
  by (auto simp: hash_step_def index_entry_def Let_def split: sum.splits option.splits)

lemma hash_loop_total: "\<exists>idx'. hash_loop E C idx items = Inr idx'"
proof (induction items arbitrary: idx)
  case Nil
  then show ?case by simp
next
  case (Cons item items)
  obtain k meta where i: "item = (k, meta)" by (cases item)
  show ?case using Cons.IH by (simp add: i hash_step_eq)
qed

lemma hash_loop_keys:
  "hash_loop E C idx items = Inr idx' \<Longrightarrow>
   set (map fst idx') \<subseteq> set (map fst idx) \<union> set (map fst items)"
proof (induction items arbitrary: idx)
  case Nil
  then show ?case by simp
next
  case (Cons item items)
  obtain k meta where i: "item = (k, meta)" by (cases item)
  let ?idx1 = "case index_entry E C meta of None \<Rightarrow> idx | Some h \<Rightarrow> AList.update k h idx"
  have l: "hash_loop E C ?idx1 items = Inr idx'"
    using Cons.prems by (simp add: i hash_step_eq)
  have k1: "set (map fst ?idx1) \<subseteq> insert k (set (map fst idx))"
    by (auto simp: dom_update split: option.splits)
  have "set (map fst idx') \<subseteq> set (map fst ?idx1) \<union> set (map fst items)"
    by (rule Cons.IH[OF l])
  also have "\<dots> \<subseteq> insert k (set (map fst idx)) \<union> set (map fst items)"
    using k1 by blast
  also have "\<dots> = set (map fst idx) \<union> set (map fst (item # items))"
    by (simp add: i)
  finally show ?case .
qed

lemma hash_loop_distinct:
  "hash_loop E C idx items = Inr idx' \<Longrightarrow> distinct (map fst idx) \<Longrightarrow> distinct (map fst idx')"
proof (induction items arbitrary: idx)
  case Nil
  then show ?case by simp
next
  case (Cons item items)
  obtain k meta where i: "item = (k, meta)" by (cases item)
  let ?idx1 = "case index_entry E C meta of None \<Rightarrow> idx | Some h \<Rightarrow> AList.update k h idx"
  have l: "hash_loop E C ?idx1 items = Inr idx'"
    using Cons.prems(1) by (simp add: i hash_step_eq)
  have d1: "distinct (map fst ?idx1)"
    using Cons.prems(2) by (simp add: distinct_update split: option.splits)
  show ?case by (rule Cons.IH[OF l d1])
qed

lemma hash_loop_lookup:
  assumes "distinct (map fst items)"
  shows "\<exists>idx'. hash_loop E C idx items = Inr idx'
          \<and> (\<forall>k. map_of idx' k =
                (case map_of items k of
                   None \<Rightarrow> map_of idx k
                 | Some meta \<Rightarrow> (case index_entry E C meta of None \<Rightarrow> map_of idx k | Some h \<Rightarrow> Some h)))"
  using assms
proof (induction items arbitrary: idx)
  case Nil
  then show ?case by simp
next
  case (Cons item items)
  obtain k meta where i: "item = (k, meta)" by (cases item)
  let ?idx1 = "case index_entry E C meta of None \<Rightarrow> idx | Some h \<Rightarrow> AList.update k h idx"
  from Cons.prems have d: "distinct (map fst items)" and nk: "map_of items k = None"
    by (auto simp: i map_of_eq_None_iff)
  from Cons.IH[OF d, of ?idx1] obtain idx' where
    l: "hash_loop E C ?idx1 items = Inr idx'" and
    m: "\<And>k'. map_of idx' k' =
                (case map_of items k' of
                   None \<Rightarrow> map_of ?idx1 k'
                 | Some meta \<Rightarrow> (case index_entry E C meta of None \<Rightarrow> map_of ?idx1 k' | Some h \<Rightarrow> Some h))"
    by blast
  have "hash_loop E C idx (item # items) = Inr idx'"
    using l by (simp add: i hash_step_eq)
  moreover have "\<forall>k'. map_of idx' k' =
                (case map_of (item # items) k' of
                   None \<Rightarrow> map_of idx k'
                 | Some meta \<Rightarrow> (case index_entry E C meta of None \<Rightarrow> map_of idx k' | Some h \<Rightarrow> Some h))"
  proof
    fix k'
    show "map_of idx' k' =
                (case map_of (item # items) k' of
                   None \<Rightarrow> map_of idx k'
                 | Some meta \<Rightarrow> (case index_entry E C meta of None \<Rightarrow> map_of idx k' | Some h \<Rightarrow> Some h))"
      using nk by (cases "k' = k") (auto simp: m i update_conv' split: option.splits)
  qed
  ultimately show ?case by blast
qed

lemma icon_hash_fetch_fails:
  "isl (http_get_bytes C url) \<Longrightarrow> icon_hash C url \<noteq> Inr (Some h)"
  by (auto simp: icon_hash_def split: sum.splits)

lemma icon_hash_decode_None:
  "http_get_bytes C url = Inr png \<Longrightarrow> imdecode C png = Inr None \<Longrightarrow> icon_hash C url = Inr None"
  by (simp add: icon_hash_def)

lemma cv0_sel:
  "http_get_bytes cv0 url =
     (if url = ''https://enka.network/ui/UI_AvatarIcon_Ayaka.png'' then Inr ''ayaka''
      else if url = ''https://enka.network/ui/UI_EquipIcon_Sword_Blunt.png'' then Inr ''corrupt''
      else Inl URLError)"
  "imdecode cv0 png = (if png = ''ayaka'' then Inr (Some ex_img) else Inr None)"
  "to_bgr cv0 img = Inr img"
  "cvtColor_gray cv0 img = Inr img"
  "resize_area cv0 g (w, h) =
     (if int (length g) = h \<and> list_all (\<lambda>row. int (length row) = w) g then Inr g else Inl CvError)"
  by (simp_all add: cv0_def)

lemma hex_format_half: "hex_format 16 18446744069414584320 = ''ffffffff00000000''"
  by (simp add: hex_format_def hex_digits.simps digit_char_def)

lemma ex_img_bits:
  "pack_bits (concat (dhash_diff ex_img)) = 18446744069414584320"
  unfolding pack_bits_def pack_fun by (simp add: dhash_diff_def ex_img_def)

lemma ex_img_hash: "dhash_hex cv0 ex_img 8 = Inr ''ffffffff00000000''"
proof -
  have "resize_area cv0 ex_img (8 + 1, 8) = Inr ex_img"
    by (simp add: cv0_sel ex_img_def)
  with dhash_hex_Inr[of cv0 ex_img ex_img 8 ex_img] show ?thesis
    by (simp add: cv0_sel ex_img_bits hex_format_half)
qed

lemma ex_urls:
  "icon_url env0 (JStr ''UI_AvatarIcon_Ayaka'') = ''https://enka.network/ui/UI_AvatarIcon_Ayaka.png''"
  "icon_url env0 (JStr ''UI_EquipIcon_Sword_Blunt'') = ''https://enka.network/ui/UI_EquipIcon_Sword_Blunt.png''"
  "icon_url env0 (JStr ''UI_AvatarIcon_A'') = ''https://enka.network/ui/UI_AvatarIcon_A.png''"
  by (simp_all add: icon_url_def ENKA_UI_def py_str_def)

lemma ex_icon_hashes:
  "icon_hash cv0 ''https://enka.network/ui/UI_AvatarIcon_Ayaka.png'' = Inr (Some ''ffffffff00000000'')"
  "icon_hash cv0 ''https://enka.network/ui/UI_EquipIcon_Sword_Blunt.png'' = Inr None"
  "icon_hash cv0 ''https://enka.network/ui/UI_AvatarIcon_A.png'' = Inl URLError"
  by (simp_all add: icon_hash_def cv0_sel ex_img_hash)

lemma ex_index:
  "build_hash_index env0 cv0 ex_table = Inr [(''10000002'', ''ffffffff00000000'')]"
  by (simp add: build_hash_index_def ex_table_def hash_step_def dict_get_def py_bool_def
      ex_urls ex_icon_hashes)

text \<open>
  C6. Every key of a hash index built from an entity table is a key of the table, and the
  index has at most as many entries as the table.
\<close>

theorem hash_index_subset:
  "build_hash_index E C items = Inr idx \<Longrightarrow>
   set (map fst idx) \<subseteq> set (map fst items) \<and> length idx \<le> length items"
proof -
  assume b: "build_hash_index E C items = Inr idx"
  from hash_loop_keys[of E C "[]" items idx] b
  have s: "set (map fst idx) \<subseteq> set (map fst items)"
    by (simp add: build_hash_index_def)
  from hash_loop_distinct[of E C "[]" items idx] b
  have d: "distinct (map fst idx)"
    by (simp add: build_hash_index_def)
  have "length idx = card (set (map fst idx))"
    using distinct_card[OF d] by simp
  also have "\<dots> \<le> card (set (map fst items))"
    by (rule card_mono[OF _ s]) simp
  also have "\<dots> \<le> length items"
    using card_length[of "map fst items"] by simp
  finally show ?thesis using s by simp
qed

text \<open>The index of the three-record table has the one key whose icon could be hashed.\<close>

theorem hash_index_subset_witness:
  "build_hash_index env0 cv0 ex_table = Inr [(''10000002'', ''ffffffff00000000'')]
   \<and> set (map fst [(''10000002'', ''ffffffff00000000'')]) \<subseteq> set (map fst ex_table)
   \<and> length [(''10000002'', ''ffffffff00000000'')] \<le> length ex_table"
  using hash_index_subset[OF ex_index] ex_index by simp

text \<open>
  C7. The index builder always returns an index: no exception of a fetch, a decode or a
  hash leaves it. In a table (keys distinct, as in a dict), a record whose icon fetch raises,
  whose bytes decode to no image, or whose \<^verbatim>\<open>try\<close> body raises anywhere has no entry in
  the index, and every record whose icon is fetched, decoded and hashed has its hash in the
  index, whatever happened to the records before it.
\<close>

theorem icon_failure_skipped:
  "\<exists>idx. build_hash_index E C items = Inr idx \<and>
     (distinct (map fst items) \<longrightarrow>
        (\<forall>(k, meta) \<in> set items.
            py_bool E (dict_get meta ''icon_name'' JNull) \<longrightarrow>
            (isl (http_get_bytes C (icon_url E (dict_get meta ''icon_name'' JNull)))
             \<or> (\<exists>png. http_get_bytes C (icon_url E (dict_get meta ''icon_name'' JNull)) = Inr png
                      \<and> imdecode C png = Inr None)
             \<or> isl (icon_hash C (icon_url E (dict_get meta ''icon_name'' JNull)))) \<longrightarrow>
            map_of idx k = None)
      \<and> (\<forall>(k, meta) \<in> set items. \<forall>h.
            py_bool E (dict_get meta ''icon_name'' JNull) \<longrightarrow>
            icon_hash C (icon_url E (dict_get meta ''icon_name'' JNull)) = Inr (Some h) \<longrightarrow>
            map_of idx k = Some h))"
proof (cases "distinct (map fst items)")
  case False
  then show ?thesis using hash_loop_total[of E C "[]" items] by (auto simp: build_hash_index_def)
next
  case True
  from hash_loop_lookup[OF True, of E C "[]"] obtain idx where
    b: "hash_loop E C [] items = Inr idx" and
    m: "\<And>k. map_of idx k =
          (case map_of items k of
             None \<Rightarrow> map_of [] k
           | Some meta \<Rightarrow> (case index_entry E C meta of None \<Rightarrow> map_of [] k | Some h \<Rightarrow> Some h))"
    by blast
  have fail: "map_of idx k = None"
    if "(k, meta) \<in> set items"
      and "isl (http_get_bytes C (icon_url E (dict_get meta ''icon_name'' JNull)))
             \<or> (\<exists>png. http_get_bytes C (icon_url E (dict_get meta ''icon_name'' JNull)) = Inr png
                      \<and> imdecode C png = Inr None)
             \<or> isl (icon_hash C (icon_url E (dict_get meta ''icon_name'' JNull)))"
    for k meta
  proof -
    have "map_of items k = Some meta" using that(1) True by simp
    moreover have "index_entry E C meta = None"
      using that(2)
      by (auto simp: index_entry_def icon_hash_decode_None dest: icon_hash_fetch_fails
               split: sum.splits option.splits)
    ultimately show ?thesis by (simp add: m)
  qed
  have ok: "map_of idx k = Some h"
    if "(k, meta) \<in> set items" and "py_bool E (dict_get meta ''icon_name'' JNull)"
      and "icon_hash C (icon_url E (dict_get meta ''icon_name'' JNull)) = Inr (Some h)"
    for k meta h
  proof -
    have "map_of items k = Some meta" using that(1) True by simp
    moreover have "index_entry E C meta = Some h"
      using that(2,3) by (simp add: index_entry_def)
    ultimately show ?thesis by (simp add: m)
  qed
  show ?thesis
    using b fail ok by (auto simp: build_hash_index_def)
qed

text \<open>
  Of the three records, the second decodes to no image and the third cannot be fetched;
  the first one is in the index.
\<close>

theorem icon_failure_skipped_witness:
  "distinct (map fst ex_table)
   \<and> build_hash_index env0 cv0 ex_table = Inr [(''10000002'', ''ffffffff00000000'')]
   \<and> http_get_bytes cv0 (icon_url env0 (JStr ''UI_EquipIcon_Sword_Blunt'')) = Inr ''corrupt''
   \<and> imdecode cv0 ''corrupt'' = Inr None
   \<and> isl (http_get_bytes cv0 (icon_url env0 (JStr ''UI_AvatarIcon_A'')))
   \<and> icon_hash cv0 (icon_url env0 (JStr ''UI_AvatarIcon_Ayaka'')) = Inr (Some ''ffffffff00000000'')
   \<and> map_of [(''10000002'', ''ffffffff00000000'')] ''11101'' = None
   \<and> map_of [(''10000002'', ''ffffffff00000000'')] ''7'' = None
   \<and> map_of [(''10000002'', ''ffffffff00000000'')] ''10000002'' = Some ''ffffffff00000000''"
  using icon_failure_skipped[of env0 cv0 ex_table]
  by (simp add: ex_index[unfolded ex_table_def] ex_table_def ex_urls cv0_sel ex_icon_hashes
      dict_get_def py_bool_def)

section \<open>The ramp example\<close>

lemma cv_vresize_256: "cv_vresize (256 * t) = (t + 4) div 8"
proof -
  have "(2048 * ((256 * t) div 16)) div 65536 = t div 2"
    by simp
  then show ?thesis unfolding cv_vresize_def by simp
qed

lemma cv_resize_row_explicit:
  "cv_resize_row_8_to_9 [r0, r1, r2, r3, r4, r5, r6, r7]
   = [r0, (r0 + 7 * r1 + 4) div 8, (2 * r1 + 6 * r2 + 4) div 8, (3 * r2 + 5 * r3 + 4) div 8,
      (4 * r3 + 4 * r4 + 4) div 8, (5 * r4 + 3 * r5 + 4) div 8, (6 * r5 + 2 * r6 + 4) div 8,
      (7 * r6 + r7 + 4) div 8, r7]"
proof -
  have h: "cv_hresize [r0, r1, r2, r3, r4, r5, r6, r7] 0 = 256 * (8 * r0)"
    "cv_hresize [r0, r1, r2, r3, r4, r5, r6, r7] 1 = 256 * (r0 + 7 * r1)"
    "cv_hresize [r0, r1, r2, r3, r4, r5, r6, r7] 2 = 256 * (2 * r1 + 6 * r2)"
    "cv_hresize [r0, r1, r2, r3, r4, r5, r6, r7] 3 = 256 * (3 * r2 + 5 * r3)"
    "cv_hresize [r0, r1, r2, r3, r4, r5, r6, r7] 4 = 256 * (4 * r3 + 4 * r4)"
    "cv_hresize [r0, r1, r2, r3, r4, r5, r6, r7] 5 = 256 * (5 * r4 + 3 * r5)"
    "cv_hresize [r0, r1, r2, r3, r4, r5, r6, r7] 6 = 256 * (6 * r5 + 2 * r6)"
    "cv_hresize [r0, r1, r2, r3, r4, r5, r6, r7] 7 = 256 * (7 * r6 + r7)"
    "cv_hresize [r0, r1, r2, r3, r4, r5, r6, r7] 8 = 256 * (8 * r7)"
    by (simp_all add: cv_hresize_def cv_sx_def cv_alpha_def Let_def)
  show ?thesis
    unfolding cv_resize_row_8_to_9_def
    by (simp only: list.map h cv_vresize_256) simp
qed

lemma ex_ramp_resized:
  "cv_resize_row_8_to_9 [0, 36, 73, 109, 146, 182, 219, 255] = [0, 32, 64, 96, 128, 160, 191, 224, 255]"
  by (simp add: cv_resize_row_explicit)

lemma ex_steps_resized:
  "cv_resize_row_8_to_9 [0, 1, 2, 3, 4, 5, 6, 255] = [0, 1, 2, 3, 4, 4, 5, 37, 255]"
  by (simp add: cv_resize_row_explicit)

lemma length_8_explicit:
  "length xs = 8 \<Longrightarrow> \<exists>r0 r1 r2 r3 r4 r5 r6 r7. xs = [r0, r1, r2, r3, r4, r5, r6, r7]"
  by (auto simp: numeral_eq_Suc length_Suc_conv)

lemma replicate_8: "replicate 8 x = [x, x, x, x, x, x, x, x]"
  by (simp add: numeral_eq_Suc)

lemma resized_row_bits:
  assumes "length row = 8" and "\<forall>i<7. row ! i + 2 \<le> row ! (i + 1)"
  shows "map (\<lambda>(r, l). r > l) (zip (tl (cv_resize_row_8_to_9 row)) (butlast (cv_resize_row_8_to_9 row)))
         = replicate 8 True"
proof -
  from length_8_explicit[OF assms(1)] obtain r0 r1 r2 r3 r4 r5 r6 r7
    where row: "row = [r0, r1, r2, r3, r4, r5, r6, r7]" by blast
  have s0: "r0 + 2 \<le> r1" using assms(2)[rule_format, of 0] by (simp add: row)
  have s1: "r1 + 2 \<le> r2" using assms(2)[rule_format, of 1] by (simp add: row)
  have s2: "r2 + 2 \<le> r3" using assms(2)[rule_format, of 2] by (simp add: row)
  have s3: "r3 + 2 \<le> r4" using assms(2)[rule_format, of 3] by (simp add: row)
  have s4: "r4 + 2 \<le> r5" using assms(2)[rule_format, of 4] by (simp add: row)
  have s5: "r5 + 2 \<le> r6" using assms(2)[rule_format, of 5] by (simp add: row)
  have s6: "r6 + 2 \<le> r7" using assms(2)[rule_format, of 6] by (simp add: row)
  have c0: "r0 < (r0 + 7 * r1 + 4) div 8" using s0 by arith
  have c1: "(r0 + 7 * r1 + 4) div 8 < (2 * r1 + 6 * r2 + 4) div 8" using s0 s1 by arith
  have c2: "(2 * r1 + 6 * r2 + 4) div 8 < (3 * r2 + 5 * r3 + 4) div 8" using s1 s2 by arith
  have c3: "(3 * r2 + 5 * r3 + 4) div 8 < (4 * r3 + 4 * r4 + 4) div 8" using s2 s3 by arith
  have c4: "(4 * r3 + 4 * r4 + 4) div 8 < (5 * r4 + 3 * r5 + 4) div 8" using s3 s4 by arith
  have c5: "(5 * r4 + 3 * r5 + 4) div 8 < (6 * r5 + 2 * r6 + 4) div 8" using s4 s5 by arith
  have c6: "(6 * r5 + 2 * r6 + 4) div 8 < (7 * r6 + r7 + 4) div 8" using s5 s6 by arith
  have c7: "(7 * r6 + r7 + 4) div 8 < r7" using s6 by arith
  show ?thesis
    unfolding row cv_resize_row_explicit replicate_8
    using c0 c1 c2 c3 c4 c5 c6 c7 by simp
qed

lemma foldl_all_ones:
  "foldl (\<lambda>val b. 2 * val + of_bool b) (v::int) (replicate n True) = (v + 1) * 2 ^ n - 1"
  by (induction n arbitrary: v) (simp_all add: algebra_simps)

lemma pack_bits_all_ones: "pack_bits (replicate n True) = 2 ^ n - 1"
  unfolding pack_bits_def pack_fun by (simp add: foldl_all_ones)

lemma concat_replicate_replicate:
  "concat (replicate m (replicate n x)) = replicate (m * n) x"
  by (induction m) (simp_all add: replicate_add)

lemma hex_format_all_f: "hex_format 16 18446744073709551615 = ''ffffffffffffffff''"
  by (simp add: hex_format_def hex_digits.simps digit_char_def)

lemma hex_format_f7: "hex_format 16 17868022691004938231 = ''f7f7f7f7f7f7f7f7''"
  by (simp add: hex_format_def hex_digits.simps digit_char_def)

text \<open>
  C2 (as the code has it). For an 8x8 grayscale image in which every pixel is at least 2
  above its left neighbour, as in the evenly spaced ramp 0, 36, 73, 109, 146, 182, 219, 255
  from 0 at the left to 255 at the right, \<^verbatim>\<open>dhash_hex\<close> with hash size 8 gives all-1 bits,
  the hex string \<^verbatim>\<open>ffffffffffffffff\<close>. The resize is OpenCV's, as modelled above.
\<close>

theorem ramp_hash:
  fixes C :: "('b, 'i, nat) cvenv"
  assumes "cvtColor_gray C img = Inr gray"
    and "length gray = 8"
    and "\<forall>row \<in> set gray. length row = 8 \<and> (\<forall>i<7. row ! i + 2 \<le> row ! (i + 1))"
    and "resize_area C gray (9, 8) = Inr (map cv_resize_row_8_to_9 gray)"
  shows "dhash_hex C img 8 = Inr ''ffffffffffffffff''"
proof -
  have "dhash_diff (map cv_resize_row_8_to_9 gray) = map (\<lambda>row. replicate 8 True) gray"
    unfolding dhash_diff_def using assms(3) by (simp add: resized_row_bits)
  also have "\<dots> = replicate 8 (replicate 8 True)"
    using assms(2) by (simp add: map_replicate_const)
  finally have d: "dhash_diff (map cv_resize_row_8_to_9 gray) = replicate 8 (replicate 8 True)" .
  have b: "concat (dhash_diff (map cv_resize_row_8_to_9 gray)) = replicate 64 True"
    unfolding d concat_replicate_replicate by simp
  have "dhash_hex C img 8 = Inr (hex_format (nat ((8 * 8 + 3) div 4)) (pack_bits (replicate 64 True)))"
    using dhash_hex_Inr[of C img gray 8 "map cv_resize_row_8_to_9 gray"] assms(1,4) b by simp
  then show ?thesis
    by (simp add: pack_bits_all_ones hex_format_all_f)
qed

lemma cv_up_sel:
  "cvtColor_gray cv_up img = Inr img"
  "resize_area cv_up g sz =
     (if sz = (9, 8) \<and> length g = 8 \<and> list_all (\<lambda>row. length row = 8) g
      then Inr (map cv_resize_row_8_to_9 g) else Inl CvError)"
  by (simp_all add: cv_up_def)

text \<open>The evenly spaced ramp from 0 to 255.\<close>

theorem ramp_hash_witness:
  "cvtColor_gray cv_up ex_ramp = Inr ex_ramp
   \<and> length ex_ramp = 8
   \<and> list_all (\<lambda>row. length row = 8 \<and> hd row = 0 \<and> last row = 255
                  \<and> list_all (\<lambda>i. row ! i + 2 \<le> row ! (i + 1)) [0, 1, 2, 3, 4, 5, 6]) ex_ramp
   \<and> resize_area cv_up ex_ramp (9, 8) = Inr (replicate 8 [0, 32, 64, 96, 128, 160, 191, 224, 255])
   \<and> dhash_hex cv_up ex_ramp 8 = Inr ''ffffffffffffffff''"
proof -
  have h1: "cvtColor_gray cv_up ex_ramp = Inr ex_ramp" by (simp add: cv_up_sel)
  have h2: "length ex_ramp = 8" by (simp add: ex_ramp_def)
  have h3: "\<forall>row \<in> set ex_ramp. length row = 8 \<and> (\<forall>i<7. row ! i + 2 \<le> row ! (i + 1))"
  proof -
    have "\<forall>i<7. [0, 36, 73, 109, 146, 182, 219, 255 :: nat] ! i + 2
                 \<le> [0, 36, 73, 109, 146, 182, 219, 255] ! (i + 1)"
    proof (intro allI impI)
      fix i :: nat assume "i < 7"
      then have "i = 0 \<or> i = 1 \<or> i = 2 \<or> i = 3 \<or> i = 4 \<or> i = 5 \<or> i = 6" by arith
      then show "[0, 36, 73, 109, 146, 182, 219, 255 :: nat] ! i + 2
                 \<le> [0, 36, 73, 109, 146, 182, 219, 255] ! (i + 1)"
        by auto
    qed
    then show ?thesis by (simp add: ex_ramp_def)
  qed
  have h4: "resize_area cv_up ex_ramp (9, 8) = Inr (map cv_resize_row_8_to_9 ex_ramp)"
    by (simp add: cv_up_sel ex_ramp_def list_all_iff)
  have e: "map cv_resize_row_8_to_9 ex_ramp = replicate 8 [0, 32, 64, 96, 128, 160, 191, 224, 255]"
    by (simp add: ex_ramp_def ex_ramp_resized)
  have l: "list_all (\<lambda>row. length row = 8 \<and> hd row = 0 \<and> last row = 255
                  \<and> list_all (\<lambda>i. row ! i + 2 \<le> row ! (i + 1)) [0, 1, 2, 3, 4, 5, 6]) ex_ramp"
    by (simp add: ex_ramp_def list_all_iff)
  from ramp_hash[OF h1 h2 h3 h4] h1 h2 h4 e l show ?thesis by simp
qed

text \<open>
  Every row 0, 1, 2, 3, 4, 5, 6, 255 increases strictly from 0 to 255, but the resize rounds
  two neighbours to 4, so one bit of each row is 0 and the hash is \<^verbatim>\<open>f7f7f7f7f7f7f7f7\<close>.
\<close>

theorem uneven_ramp_counterexample:
  "list_all (\<lambda>row. length row = 8 \<and> hd row = 0 \<and> last row = 255 \<and> sorted_wrt (<) row) ex_steps
   \<and> cvtColor_gray cv_up ex_steps = Inr ex_steps
   \<and> resize_area cv_up ex_steps (9, 8) = Inr (replicate 8 [0, 1, 2, 3, 4, 4, 5, 37, 255])
   \<and> dhash_hex cv_up ex_steps 8 = Inr ''f7f7f7f7f7f7f7f7''"
proof -
  have r: "resize_area cv_up ex_steps (9, 8) = Inr (replicate 8 [0, 1, 2, 3, 4, 4, 5, 37, 255])"
    by (simp add: cv_up_sel ex_steps_def list_all_iff ex_steps_resized[unfolded One_nat_def])
  have p: "pack_bits (concat (dhash_diff (replicate 8 [0, 1, 2, 3, 4, 4, 5, 37, 255 :: nat])))
           = 17868022691004938231"
    unfolding pack_bits_def pack_fun replicate_8 by (simp add: dhash_diff_def)
  have "dhash_hex cv_up ex_steps 8 = Inr ''f7f7f7f7f7f7f7f7''"
    using dhash_hex_Inr[of cv_up ex_steps ex_steps 8 "replicate 8 [0, 1, 2, 3, 4, 4, 5, 37, 255]"] r
    by (simp add: cv_up_sel p[unfolded One_nat_def] hex_format_f7)
  then show ?thesis using r by (simp add: cv_up_sel) (simp add: ex_steps_def list_all_iff)
qed

end
